theory Spec2Isabelle
  imports Complex_Main
begin

section \<open>JavaScript helpers used by the controllers\<close>

text \<open>
  A JavaScript string is modelled by the \<open>string\<close> of its UTF-8 bytes.
  \<open>String.prototype.toLowerCase\<close> follows the Unicode case mapping of the runtime; the
  handlers take it from the environment (see \<open>env\<close>). \<open>asciiLowerCase\<close> is that function on
  strings of ASCII characters, where only \<open>A..Z\<close> change; the examples use it.
\<close>

definition lowerChar :: "char \<Rightarrow> char" where
  "lowerChar c =
     (let n = (of_char c :: nat) in if 65 \<le> n \<and> n \<le> 90 then char_of (n + 32) else c)"

definition asciiLowerCase :: "string \<Rightarrow> string" where
  "asciiLowerCase s = map lowerChar s"

text \<open>\<open>s.split(d)\<close> for a one-character separator: the result is never empty.\<close>

fun split :: "char \<Rightarrow> string \<Rightarrow> string list" where
  "split d [] = [[]]"
| "split d (c # cs) =
     (if c = d then [] # split d cs
      else (case split d cs of [] \<Rightarrow> [[c]] | w # ws \<Rightarrow> (c # w) # ws))"

text \<open>
  A JavaScript number, as far as the handlers meet one: \<open>NaN\<close>, the two infinities, and
  \<open>Fin i\<close>, the double whose value is the integer \<open>i\<close>. The two zeros are one value here:
  truthiness, the cursor and the JSON reply do not tell them apart.
\<close>

datatype jsnum = NaN | PosInf | NegInf | Fin int

text \<open>
  The double nearest to an integer (round to nearest, ties to even, 53 significant bits;
  \<open>2^1024\<close> and beyond is infinite). \<open>bits m\<close> is the length of \<open>m\<close> in binary.
\<close>

function bits :: "int \<Rightarrow> nat" where
  "bits n = (if n \<le> 0 then 0 else Suc (bits (n div 2)))"
  by pat_completeness auto
termination
  by (relation "measure nat") auto

declare bits.simps [simp del]

definition roundMag :: "int \<Rightarrow> int" where
  "roundMag m =
     (if m < 2 ^ 53 then m
      else (let e = bits m - 53;
                q = m div 2 ^ e;
                r = m mod 2 ^ e;
                h = 2 ^ (e - 1)
            in if h < r \<or> (r = h \<and> odd q) then (q + 1) * 2 ^ e else q * 2 ^ e))"

definition toNumber :: "int \<Rightarrow> jsnum" where
  "toNumber i =
     (let m = roundMag \<bar>i\<bar>
      in if 2 ^ 1024 \<le> m then (if i < 0 then NegInf else PosInf)
         else Fin (if i < 0 then - m else m))"

text \<open>Subtraction and multiplication of doubles with integer values.\<close>

fun jsSub :: "jsnum \<Rightarrow> jsnum \<Rightarrow> jsnum" where
  "jsSub NaN y = NaN"
| "jsSub x NaN = NaN"
| "jsSub (Fin a) (Fin b) = toNumber (a - b)"
| "jsSub (Fin a) PosInf = NegInf"
| "jsSub (Fin a) NegInf = PosInf"
| "jsSub PosInf PosInf = NaN"
| "jsSub NegInf NegInf = NaN"
| "jsSub PosInf y = PosInf"
| "jsSub NegInf y = NegInf"

fun jsMul :: "jsnum \<Rightarrow> jsnum \<Rightarrow> jsnum" where
  "jsMul NaN y = NaN"
| "jsMul x NaN = NaN"
| "jsMul (Fin a) (Fin b) = toNumber (a * b)"
| "jsMul (Fin a) y = (if a = 0 then NaN else if (0 < a) = (y = PosInf) then PosInf else NegInf)"
| "jsMul x (Fin b) = (if b = 0 then NaN else if (0 < b) = (x = PosInf) then PosInf else NegInf)"
| "jsMul x y = (if x = y then PosInf else NegInf)"

text \<open>
  \<open>Math.ceil(t / l)\<close> for an integer \<open>t\<close>. For \<open>t\<close> below \<open>2^53\<close> in size the double
  quotient of \<open>t\<close> by an integer lies strictly between the same two integers as the exact
  quotient (or is that integer), so its ceiling is the exact one.
\<close>

definition jsCeilDiv :: "int \<Rightarrow> jsnum \<Rightarrow> jsnum" where
  "jsCeilDiv t l =
     (case l of
        NaN \<Rightarrow> NaN
      | PosInf \<Rightarrow> Fin 0
      | NegInf \<Rightarrow> Fin 0
      | Fin d \<Rightarrow>
          if d = 0 then (if t = 0 then NaN else if 0 < t then PosInf else NegInf)
          else Fin \<lceil>real_of_int t / real_of_int d\<rceil>)"

text \<open>
  The white space that \<open>parseInt\<close> skips: the ASCII characters 9 to 13 and 32, and in UTF-8
  the code points U+00A0, U+1680, U+2000 to U+200A, U+2028, U+2029, U+202F, U+205F, U+3000 and
  U+FEFF. \<open>wsLength s\<close> is the number of bytes of the white-space character that \<open>s\<close>
  starts with, or 0.
\<close>

definition wsLength :: "string \<Rightarrow> nat" where
  "wsLength s =
     (case (map of_char s :: nat list) of
        [] \<Rightarrow> 0
      | b0 # t0 \<Rightarrow>
          if b0 \<in> {9, 10, 11, 12, 13, 32} then 1
          else (case t0 of
                  [] \<Rightarrow> 0
                | b1 # t1 \<Rightarrow>
                    if b0 = 194 \<and> b1 = 160 then 2
                    else (case t1 of
                            [] \<Rightarrow> 0
                          | b2 # t2 \<Rightarrow>
                              if (b0 = 225 \<and> b1 = 154 \<and> b2 = 128)
                                 \<or> (b0 = 226 \<and> b1 = 128
                                      \<and> (128 \<le> b2 \<and> b2 \<le> 138 \<or> b2 \<in> {168, 169, 175}))
                                 \<or> (b0 = 226 \<and> b1 = 129 \<and> b2 = 159)
                                 \<or> (b0 = 227 \<and> b1 = 128 \<and> b2 = 128)
                                 \<or> (b0 = 239 \<and> b1 = 187 \<and> b2 = 191)
                              then 3 else 0)))"

function trimStart :: "string \<Rightarrow> string" where
  "trimStart s = (if wsLength s = 0 then s else trimStart (drop (wsLength s) s))"
  by pat_completeness auto
termination
proof (relation "measure length")
  show "wf (measure length)"
    by simp
next
  fix s :: string
  assume a: "wsLength s \<noteq> 0"
  then have "s \<noteq> []"
    by (auto simp: wsLength_def)
  with a show "(drop (wsLength s) s, s) \<in> measure length"
    by simp
qed

declare trimStart.simps [simp del]

text \<open>
  \<open>parseInt(s)\<close> with no radix: leading white space is skipped, one sign is read, a
  \<open>0x\<close>/\<open>0X\<close> prefix selects radix 16, the longest prefix of digits is the integer read,
  and the result is the double nearest to it (\<open>NaN\<close> when there is no digit).
\<close>

definition digitValue :: "char \<Rightarrow> nat option" where
  "digitValue c =
     (let n = (of_char c :: nat) in
      if 48 \<le> n \<and> n \<le> 57 then Some (n - 48)
      else if 97 \<le> n \<and> n \<le> 122 then Some (n - 87)
      else if 65 \<le> n \<and> n \<le> 90 then Some (n - 55)
      else None)"

definition isDigit :: "nat \<Rightarrow> char \<Rightarrow> bool" where
  "isDigit radix c = (case digitValue c of None \<Rightarrow> False | Some v \<Rightarrow> v < radix)"

definition digitsValue :: "nat \<Rightarrow> string \<Rightarrow> int" where
  "digitsValue radix ds =
     foldl (\<lambda>acc c. acc * int radix + (case digitValue c of None \<Rightarrow> 0 | Some v \<Rightarrow> int v)) 0 ds"

definition parseDigits :: "nat \<Rightarrow> string \<Rightarrow> int option" where
  "parseDigits radix s =
     (let z = takeWhile (isDigit radix) s in
      if z = [] then None else Some (digitsValue radix z))"

definition stripPrefix :: "string \<Rightarrow> nat \<times> string" where
  "stripPrefix s =
     (case s of
        c0 # c1 # rest \<Rightarrow>
          if c0 = CHR ''0'' \<and> (c1 = CHR ''x'' \<or> c1 = CHR ''X'') then (16, rest) else (10, s)
      | _ \<Rightarrow> (10, s))"

definition parseInt :: "string \<Rightarrow> jsnum" where
  "parseInt inputString =
     (let s = trimStart inputString;
          (sign, s1) = (case s of
                          c # cs \<Rightarrow> if c = CHR ''-'' then (- 1 :: int, cs)
                                    else if c = CHR ''+'' then (1, cs) else (1, s)
                        | [] \<Rightarrow> (1, s));
          (radix, s2) = stripPrefix s1
      in (case parseDigits radix s2 of
            None \<Rightarrow> NaN
          | Some v \<Rightarrow> toNumber (sign * v)))"

section \<open>Data model\<close>

type_synonym oid = string

record user =
  u_id :: oid
  u_name :: "string option"
  u_email :: string
  u_password :: "string option"
  u_role :: string
  u_bio :: "string option"
  u_avatar :: string
  u_lastActive :: int

record course =
  c_id :: oid
  c_title :: "string option"
  c_subtitle :: "string option"
  c_description :: "string option"
  c_category :: "string option"
  c_level :: "string option"
  c_price :: "int option"
  c_thumbnail :: string
  c_isPublished :: bool
  c_instructor :: oid
  c_lectures :: "oid list"
  c_enrolledStudents :: "oid list"

record lecture =
  l_id :: oid
  l_title :: "string option"
  l_description :: "string option"
  l_videoUrl :: string
  l_publicId :: string
  l_duration :: nat
  l_isPreview :: "bool option"
  l_order :: nat

text \<open>The media service: what an upload answers, and the calls made to it, in order.\<close>

record upload_result =
  secure_url :: "string option"
  public_id :: "string option"
  duration :: "nat option"

datatype media_call = UploadMedia string | DeleteMedia "string option"

record world =
  users :: "user list"
  courses :: "course list"
  lectures :: "lecture list"
  media :: "media_call list"

datatype course_field = Title | Subtitle | Description

datatype sort_field = CreatedAt | Price | AverageRating

text \<open>A query-string value is a string or a list of strings; an absent one is \<open>None\<close>.\<close>

datatype qval = QStr string | QArr "string list"

text \<open>
  The query object of \<open>searchCourses\<close>: the \<open>isPublished\<close> entry, the \<open>$or\<close> list of
  case-insensitive regular-expression clauses, and the optional \<open>category\<close> (\<open>$in\<close>),
  \<open>level\<close> and \<open>price\<close> (\<open>$gte\<close>, \<open>$lte\<close>) entries.
\<close>

record search_criteria =
  sc_isPublished :: bool
  sc_or :: "(course_field \<times> qval \<times> string) list"
  sc_category :: "qval option"
  sc_level :: "qval option"
  sc_price :: "(string \<times> string option) option"

type_synonym sort_options = "sort_field \<times> int"

text \<open>
  What the handlers take from outside. The runtime: \<open>String.prototype.toLowerCase\<close>.
  The media service: its answer to an upload
  (\<open>None\<close> is a falsy result). The datastore: the identifier given to a created document,
  the password hash applied when a user is saved, the cast of an upload answer written to
  the user's \<open>avatar\<close> path (\<open>None\<close> is a cast failure), the tests behind the query
  operators, whether a query object is accepted at all, and the key a sort field orders by.
  The clock.
\<close>

record env =
  toLowerCase :: "string \<Rightarrow> string"
  uploadAnswer :: "string \<Rightarrow> upload_result option"
  newId :: oid
  now :: int
  hashPassword :: "string \<Rightarrow> string"
  castAvatar :: "upload_result \<Rightarrow> string option"
  regexTest :: "qval \<Rightarrow> string \<Rightarrow> string option \<Rightarrow> bool"
  inTest :: "qval \<Rightarrow> string option \<Rightarrow> bool"
  eqTest :: "qval \<Rightarrow> string option \<Rightarrow> bool"
  rangeTest :: "string \<Rightarrow> string option \<Rightarrow> int option \<Rightarrow> bool"
  accepts :: "search_criteria \<Rightarrow> bool"
  sortKey :: "sort_field \<Rightarrow> course \<Rightarrow> int"

section \<open>Requests, responses, errors\<close>

record query =
  q_query :: "qval option"
  q_categories :: "qval option"
  q_level :: "qval option"
  q_priceRange :: "qval option"
  q_sortBy :: "qval option"
  q_page :: "qval option"
  q_limit :: "qval option"

record body =
  b_title :: "string option"
  b_subtitle :: "string option"
  b_description :: "string option"
  b_category :: "string option"
  b_level :: "string option"
  b_price :: "int option"
  b_isPreview :: "bool option"
  b_name :: "string option"
  b_email :: "string option"
  b_password :: "string option"
  b_role :: "string option"
  b_bio :: "string option"

record request =
  r_id :: oid
  r_user :: "user option"
  r_courseId :: oid
  r_query :: query
  r_body :: body
  r_file :: "string option"

datatype error = AppError string nat | TypeError | CastError | DriverError

section \<open>Datastore operations\<close>

fun updateFirst :: "('a \<Rightarrow> bool) \<Rightarrow> ('a \<Rightarrow> 'a) \<Rightarrow> 'a list \<Rightarrow> 'a list" where
  "updateFirst P f [] = []"
| "updateFirst P f (x # xs) = (if P x then f x # xs else x # updateFirst P f xs)"

definition findUserById :: "world \<Rightarrow> oid \<Rightarrow> user option" where
  "findUserById w i = find (\<lambda>u. u_id u = i) (users w)"

definition findUserByEmail :: "world \<Rightarrow> string \<Rightarrow> user option" where
  "findUserByEmail w e = find (\<lambda>u. u_email u = e) (users w)"

definition findCourseById :: "world \<Rightarrow> oid \<Rightarrow> course option" where
  "findCourseById w i = find (\<lambda>c. c_id c = i) (courses w)"

section \<open>User controller\<close>

text \<open>
  \<open>TokenIssued\<close> is the call \<open>generateToken(res, user, message)\<close>, which sends the
  response; \<open>ProfileUpdated\<close> is the JSON reply with its status.
\<close>

datatype user_response =
    TokenIssued user string
  | ProfileUpdated nat user

text \<open>
  \<open>createUserAccount\<close>: the lookup by lower-cased email, the 409, the creation, the
  last-active stamp and the token response.
\<close>

definition createUserAccount ::
  "env \<Rightarrow> request \<Rightarrow> world \<Rightarrow> (error + user_response) \<times> world" where
  "createUserAccount ev req w =
     (case b_email (r_body req) of
        None \<Rightarrow> (Inl TypeError, w)
      | Some email \<Rightarrow>
          (case findUserByEmail w (toLowerCase ev email) of
             Some user \<Rightarrow> (Inl (AppError ''User already exists'' 409), w)
           | None \<Rightarrow>
               (let role = (case b_role (r_body req) of None \<Rightarrow> ''student'' | Some r \<Rightarrow> r);
                    newUser = \<lparr> u_id = newId ev,
                                u_name = b_name (r_body req),
                                u_email = toLowerCase ev email,
                                u_password = map_option (hashPassword ev) (b_password (r_body req)),
                                u_role = role,
                                u_bio = None,
                                u_avatar = ''default-avatar.png'',
                                u_lastActive = 0 \<rparr>;
                    w1 = w\<lparr>users := users w @ [newUser]\<rparr>;
                    stamped = newUser\<lparr>u_lastActive := now ev\<rparr>;
                    w2 = w1\<lparr>users := updateFirst (\<lambda>u. u_id u = newId ev)
                                           (\<lambda>u. u\<lparr>u_lastActive := now ev\<rparr>) (users w1)\<rparr>
                in (Inr (TokenIssued stamped ''User created successfully''), w2))))"

text \<open>
  \<open>updateUserProfile\<close>. The avatar branch uploads, then reads the stored user, then calls
  the media deletion with \<open>req.user.avatar.public_id\<close>: reading \<open>avatar\<close> of an undefined
  \<open>req.user\<close> throws, and \<open>public_id\<close> of a string is \<open>undefined\<close>.
\<close>

definition applyProfileUpdate ::
  "string option \<Rightarrow> string \<Rightarrow> string option \<Rightarrow> string option \<Rightarrow> user \<Rightarrow> user" where
  "applyProfileUpdate name email bio avatar u =
     u\<lparr> u_name := (case name of None \<Rightarrow> u_name u | Some n \<Rightarrow> Some n),
        u_email := email,
        u_bio := (case bio of None \<Rightarrow> u_bio u | Some b \<Rightarrow> Some b),
        u_avatar := (case avatar of None \<Rightarrow> u_avatar u | Some a \<Rightarrow> a) \<rparr>"

text \<open>
  The \<open>findByIdAndUpdate\<close> of the handler and its reply. \<open>avatar\<close> is \<open>None\<close> when
  \<open>updateData\<close> has no defined \<open>avatar\<close>, \<open>Some None\<close> when the written value does not
  cast, \<open>Some (Some a)\<close> when it casts to \<open>a\<close>.
\<close>

definition saveProfile ::
  "env \<Rightarrow> request \<Rightarrow> string \<Rightarrow> string option option \<Rightarrow> world
     \<Rightarrow> (error + user_response) \<times> world" where
  "saveProfile ev req email avatar w =
     (case avatar of
        Some None \<Rightarrow> (Inl CastError, w)
      | _ \<Rightarrow>
        (let upd = applyProfileUpdate (b_name (r_body req)) (toLowerCase ev email)
                     (b_bio (r_body req)) (case avatar of Some a \<Rightarrow> a | None \<Rightarrow> None) in
         (case findUserById w (r_id req) of
            None \<Rightarrow> (Inl (AppError ''User not found'' 404), w)
          | Some old \<Rightarrow>
              (Inr (ProfileUpdated 200 (upd old)),
               w\<lparr>users := updateFirst (\<lambda>u. u_id u = r_id req) upd (users w)\<rparr>))))"

definition updateUserProfile ::
  "env \<Rightarrow> request \<Rightarrow> world \<Rightarrow> (error + user_response) \<times> world" where
  "updateUserProfile ev req w =
     (case b_email (r_body req) of
        None \<Rightarrow> (Inl TypeError, w)
      | Some email \<Rightarrow>
          (case r_file req of
             None \<Rightarrow> saveProfile ev req email None w
           | Some path \<Rightarrow>
               (let avatarResult = uploadAnswer ev path;
                    w1 = w\<lparr>media := media w @ [UploadMedia path]\<rparr>;
                    avatar = map_option (castAvatar ev) avatarResult
                in
                (case findUserById w1 (r_id req) of
                   None \<Rightarrow> (Inl TypeError, w1)
                 | Some user \<Rightarrow>
                     if u_avatar user \<noteq> [] \<and> u_avatar user \<noteq> ''default-avatar.png'' then
                       (case r_user req of
                          None \<Rightarrow> (Inl TypeError, w1)
                        | Some ru \<Rightarrow>
                            saveProfile ev req email avatar
                              (w1\<lparr>media := media w1 @ [DeleteMedia None]\<rparr>))
                     else saveProfile ev req email avatar w1))))"

section \<open>Course controller\<close>

record instructor_summary =
  i_id :: oid
  i_name :: "string option"
  i_avatar :: string

type_synonym populated_course = "course \<times> instructor_summary option"

record lecture_view =
  v_id :: oid
  v_title :: "string option"
  v_description :: "string option"
  v_videoUrl :: string
  v_duration :: nat
  v_isPreview :: "bool option"
  v_order :: nat

record pagination =
  p_page :: jsnum
  p_limit :: jsnum
  p_total :: int
  p_pages :: jsnum

datatype course_response =
    CourseList "populated_course list" nat
  | CoursePage "populated_course list" pagination
  | CourseUpdated "course option"
  | LectureAdded lecture
  | LectureList "lecture_view list" bool bool

definition populateInstructor :: "world \<Rightarrow> course \<Rightarrow> populated_course" where
  "populateInstructor w c =
     (c, map_option (\<lambda>u. \<lparr>i_id = u_id u, i_name = u_name u, i_avatar = u_avatar u\<rparr>)
           (findUserById w (c_instructor c)))"

subsection \<open>searchCourses\<close>

definition qlength :: "qval \<Rightarrow> nat" where
  "qlength v = (case v of QStr s \<Rightarrow> length s | QArr xs \<Rightarrow> length xs)"

definition qtruthy :: "qval option \<Rightarrow> bool" where
  "qtruthy v = (case v of None \<Rightarrow> False | Some (QStr s) \<Rightarrow> s \<noteq> [] | Some (QArr xs) \<Rightarrow> True)"

text \<open>The query object built from \<open>req.query\<close>; a \<open>priceRange\<close> with no \<open>split\<close> throws.\<close>

definition searchCriteria :: "request \<Rightarrow> error + search_criteria" where
  "searchCriteria req =
     (let q = r_query req;
          query = (case q_query q of None \<Rightarrow> QStr [] | Some v \<Rightarrow> v);
          categories = (case q_categories q of None \<Rightarrow> QArr [] | Some v \<Rightarrow> v);
          level = q_level q;
          priceRange = q_priceRange q;
          c0 = \<lparr> sc_isPublished = True,
                 sc_or = [(Title, query, ''i''), (Subtitle, query, ''i''), (Description, query, ''i'')],
                 sc_category = None, sc_level = None, sc_price = None \<rparr>;
          c1 = (if qlength categories > 0 then c0\<lparr>sc_category := Some categories\<rparr> else c0);
          c2 = (if qtruthy level then c1\<lparr>sc_level := level\<rparr> else c1)
      in if qtruthy priceRange then
           (case priceRange of
              Some (QStr s) \<Rightarrow>
                (case split CHR ''-'' s of
                   [] \<Rightarrow> Inl TypeError
                 | [mn] \<Rightarrow> Inr (c2\<lparr>sc_price := Some (mn, None)\<rparr>)
                 | mn # mx # _ \<Rightarrow> Inr (c2\<lparr>sc_price := Some (mn, Some mx)\<rparr>))
            | _ \<Rightarrow> Inl TypeError)
         else Inr c2)"

definition sortOptions :: "request \<Rightarrow> sort_options" where
  "sortOptions req =
     (let sortBy = (case q_sortBy (r_query req) of None \<Rightarrow> QStr ''newest'' | Some v \<Rightarrow> v)
      in if sortBy = QStr ''newest'' then (CreatedAt, - 1)
         else if sortBy = QStr ''oldest'' then (CreatedAt, 1)
         else if sortBy = QStr ''price-high'' then (Price, - 1)
         else if sortBy = QStr ''price-low'' then (Price, 1)
         else if sortBy = QStr ''highestRating'' then (AverageRating, - 1)
         else if sortBy = QStr ''lowestRating'' then (AverageRating, 1)
         else (CreatedAt, - 1))"

text \<open>The datastore's side: which documents a query object matches, and sorting.\<close>

definition fieldOf :: "course_field \<Rightarrow> course \<Rightarrow> string option" where
  "fieldOf f c = (case f of Title \<Rightarrow> c_title c | Subtitle \<Rightarrow> c_subtitle c
                  | Description \<Rightarrow> c_description c)"

definition matches :: "env \<Rightarrow> search_criteria \<Rightarrow> course \<Rightarrow> bool" where
  "matches ev crit c =
     (c_isPublished c = sc_isPublished crit
      \<and> list_ex (\<lambda>(f, pat, opts). regexTest ev pat opts (fieldOf f c)) (sc_or crit)
      \<and> (case sc_category crit of None \<Rightarrow> True | Some v \<Rightarrow> inTest ev v (c_category c))
      \<and> (case sc_level crit of None \<Rightarrow> True | Some v \<Rightarrow> eqTest ev v (c_level c))
      \<and> (case sc_price crit of None \<Rightarrow> True | Some (mn, mx) \<Rightarrow> rangeTest ev mn mx (c_price c)))"

definition sortCourses :: "env \<Rightarrow> sort_options \<Rightarrow> course list \<Rightarrow> course list" where
  "sortCourses ev so cs = sort_key (\<lambda>c. snd so * sortKey ev (fst so) c) cs"

definition searchCourses ::
  "env \<Rightarrow> request \<Rightarrow> world \<Rightarrow> (error + nat \<times> course_response) \<times> world" where
  "searchCourses ev req w =
     (case searchCriteria req of
        Inl e \<Rightarrow> (Inl e, w)
      | Inr crit \<Rightarrow>
          if \<not> accepts ev crit then (Inl CastError, w)
          else
            (let found = sortCourses ev (sortOptions req) (filter (matches ev crit) (courses w));
                 data = map (populateInstructor w) found
             in (Inr (200, CourseList data (length data)), w)))"

subsection \<open>getPublishedCourses\<close>

definition toStringQ :: "qval \<Rightarrow> string" where
  "toStringQ v = (case v of QStr s \<Rightarrow> s
                  | QArr xs \<Rightarrow> (case xs of [] \<Rightarrow> [] | y # ys \<Rightarrow> foldl (\<lambda>a b. a @ '','' @ b) y ys))"

text \<open>\<open>parseInt(x) || d\<close>: \<open>NaN\<close> and zero are falsy, every other number is kept.\<close>

definition parseIntOr :: "qval option \<Rightarrow> jsnum \<Rightarrow> jsnum" where
  "parseIntOr x d =
     (case x of
        None \<Rightarrow> d
      | Some v \<Rightarrow> (let n = parseInt (toStringQ v) in if n = NaN \<or> n = Fin 0 then d else n))"

text \<open>
  The datastore's cursor. \<open>skip\<close> and \<open>limit\<close> must be integers of 64 bits: a number that
  is not finite or is \<open>2^63\<close> or more in size is rejected. A negative \<open>skip\<close> is rejected; a
  negative \<open>limit\<close> is taken by its absolute value and \<open>limit(0)\<close> is no limit.
\<close>

definition skipDocs :: "jsnum \<Rightarrow> 'a list \<Rightarrow> error + 'a list" where
  "skipDocs n xs =
     (case n of
        Fin k \<Rightarrow> if k < 0 \<or> 2 ^ 63 \<le> k then Inl DriverError else Inr (drop (nat k) xs)
      | _ \<Rightarrow> Inl DriverError)"

definition limitDocs :: "jsnum \<Rightarrow> 'a list \<Rightarrow> error + 'a list" where
  "limitDocs n xs =
     (case n of
        Fin k \<Rightarrow> if 2 ^ 63 \<le> \<bar>k\<bar> then Inl DriverError
                 else if k = 0 then Inr xs else Inr (take (nat \<bar>k\<bar>) xs)
      | _ \<Rightarrow> Inl DriverError)"

definition pageParams :: "request \<Rightarrow> jsnum \<times> jsnum \<times> jsnum" where
  "pageParams req =
     (let page = parseIntOr (q_page (r_query req)) (Fin 1);
          limit = parseIntOr (q_limit (r_query req)) (Fin 10);
          skip = jsMul (jsSub page (Fin 1)) limit
      in (page, limit, skip))"

definition getPublishedCourses ::
  "env \<Rightarrow> request \<Rightarrow> world \<Rightarrow> (error + nat \<times> course_response) \<times> world" where
  "getPublishedCourses ev req w =
     (let (page, limit, skip) = pageParams req;
          published = filter c_isPublished (courses w);
          total = int (length published)
      in (case skipDocs skip (sortCourses ev (CreatedAt, - 1) published) of
            Inl e \<Rightarrow> (Inl e, w)
          | Inr rest \<Rightarrow>
              (case limitDocs limit rest of
                 Inl e \<Rightarrow> (Inl e, w)
               | Inr found \<Rightarrow>
                   (Inr (200, CoursePage (map (populateInstructor w) found)
                                \<lparr> p_page = page, p_limit = limit, p_total = total,
                                  p_pages = jsCeilDiv total limit \<rparr>), w))))"

subsection \<open>updateCourseDetails\<close>

definition orElse :: "string option \<Rightarrow> string \<Rightarrow> string" where
  "orElse v d = (case v of None \<Rightarrow> d | Some s \<Rightarrow> if s = [] then d else s)"

text \<open>
  \<open>findByIdAndUpdate\<close> with the update object of the handler: an entry whose value is
  \<open>undefined\<close> is not written.
\<close>

definition applyCourseUpdate :: "body \<Rightarrow> string option \<Rightarrow> course \<Rightarrow> course" where
  "applyCourseUpdate b thumbnail c =
     c\<lparr> c_title := (case b_title b of None \<Rightarrow> c_title c | Some v \<Rightarrow> Some v),
        c_subtitle := (case b_subtitle b of None \<Rightarrow> c_subtitle c | Some v \<Rightarrow> Some v),
        c_description := (case b_description b of None \<Rightarrow> c_description c | Some v \<Rightarrow> Some v),
        c_category := (case b_category b of None \<Rightarrow> c_category c | Some v \<Rightarrow> Some v),
        c_level := (case b_level b of None \<Rightarrow> c_level c | Some v \<Rightarrow> Some v),
        c_price := (case b_price b of None \<Rightarrow> c_price c | Some v \<Rightarrow> Some v),
        c_thumbnail := orElse thumbnail (c_thumbnail c) \<rparr>"

text \<open>
  The file-upload block of the handler: with a file, the old thumbnail (when there is one) is
  deleted from the media service, the file is uploaded, and the new thumbnail is
  \<open>result?.secure_url || req.file.path\<close>; without a file the thumbnail stays \<open>undefined\<close>.
\<close>

definition handleFileUpload :: "env \<Rightarrow> request \<Rightarrow> course \<Rightarrow> world \<Rightarrow> string option \<times> world" where
  "handleFileUpload ev req course w =
     (case r_file req of
        None \<Rightarrow> (None, w)
      | Some path \<Rightarrow>
          (let wd = (if c_thumbnail course \<noteq> []
                     then w\<lparr>media := media w @ [DeleteMedia (Some (c_thumbnail course))]\<rparr>
                     else w);
               result = uploadAnswer ev path;
               wu = wd\<lparr>media := media wd @ [UploadMedia path]\<rparr>
           in (Some (orElse (case result of None \<Rightarrow> None | Some r \<Rightarrow> secure_url r) path), wu)))"

definition updateCourseDetails ::
  "env \<Rightarrow> request \<Rightarrow> world \<Rightarrow> (error + nat \<times> course_response) \<times> world" where
  "updateCourseDetails ev req w =
     (case findCourseById w (r_courseId req) of
        None \<Rightarrow> (Inl (AppError ''Course not found'' 404), w)
      | Some course \<Rightarrow>
          if c_instructor course \<noteq> r_id req then
            (Inl (AppError ''You are not authorized to update this course'' 403), w)
          else
            (let (thumbnail, w1) = handleFileUpload ev req course w;
                 w2 = w1\<lparr>courses := updateFirst (\<lambda>c. c_id c = r_courseId req)
                                         (applyCourseUpdate (r_body req) thumbnail) (courses w1)\<rparr>
             in (Inr (200, CourseUpdated (findCourseById w2 (r_courseId req))), w2)))"

subsection \<open>addLectureToCourse\<close>

definition addLectureToCourse ::
  "env \<Rightarrow> request \<Rightarrow> world \<Rightarrow> (error + nat \<times> course_response) \<times> world" where
  "addLectureToCourse ev req w =
     (case findCourseById w (r_courseId req) of
        None \<Rightarrow> (Inl (AppError ''Course not found'' 404), w)
      | Some course \<Rightarrow>
          if c_instructor course \<noteq> r_id req then
            (Inl (AppError ''Not authorized to update this course'' 403), w)
          else
            (case r_file req of
               None \<Rightarrow> (Inl (AppError ''Video file is required'' 400), w)
             | Some path \<Rightarrow>
                 (let w1 = w\<lparr>media := media w @ [UploadMedia path]\<rparr> in
                  (case uploadAnswer ev path of
                     None \<Rightarrow> (Inl (AppError ''Error uploading video'' 500), w1)
                   | Some result \<Rightarrow>
                       (let lecture = \<lparr> l_id = newId ev,
                                         l_title = b_title (r_body req),
                                         l_description = b_description (r_body req),
                                         l_videoUrl = orElse (secure_url result) path,
                                         l_publicId = orElse (public_id result) path,
                                         l_duration = (case duration result of None \<Rightarrow> 0 | Some d \<Rightarrow> d),
                                         l_isPreview = b_isPreview (r_body req),
                                         l_order = length (c_lectures course) + 1 \<rparr>;
                            w2 = w1\<lparr>lectures := lectures w1 @ [lecture]\<rparr>;
                            saved = course\<lparr>c_lectures := c_lectures course @ [l_id lecture]\<rparr>;
                            w3 = w2\<lparr>courses := updateFirst (\<lambda>c. c_id c = c_id course)
                                                    (\<lambda>c. c\<lparr>c_lectures := c_lectures saved\<rparr>)
                                                    (courses w2)\<rparr>
                        in (Inr (201, LectureAdded lecture), w3))))))"

subsection \<open>getCourseLectures\<close>

definition selectLecture :: "lecture \<Rightarrow> lecture_view" where
  "selectLecture l =
     \<lparr> v_id = l_id l, v_title = l_title l, v_description = l_description l,
       v_videoUrl = l_videoUrl l, v_duration = l_duration l, v_isPreview = l_isPreview l,
       v_order = l_order l \<rparr>"

definition populateLectures :: "world \<Rightarrow> oid list \<Rightarrow> lecture_view list" where
  "populateLectures w ids =
     map selectLecture (sort_key l_order (filter (\<lambda>l. l_id l \<in> set ids) (lectures w)))"

definition getCourseLectures ::
  "env \<Rightarrow> request \<Rightarrow> world \<Rightarrow> (error + nat \<times> course_response) \<times> world" where
  "getCourseLectures ev req w =
     (case findCourseById w (r_courseId req) of
        None \<Rightarrow> (Inl (AppError ''Course not found'' 404), w)
      | Some course \<Rightarrow>
          (let isEnrolled = (r_id req \<in> set (c_enrolledStudents course));
               isInstructor = (c_instructor course = r_id req);
               all = populateLectures w (c_lectures course);
               lecs = (if \<not> isEnrolled \<and> \<not> isInstructor
                       then filter (\<lambda>lecture. v_isPreview lecture = Some True) all
                       else all)
           in (Inr (200, LectureList lecs isEnrolled isInstructor), w)))"

text \<open>
  The data model's invariant on users: every stored email is in lower case, that is, left
  as it is by the runtime's \<open>toLowerCase\<close>.
\<close>

definition emailsLowerCase :: "env \<Rightarrow> world \<Rightarrow> bool" where
  "emailsLowerCase ev w = list_all (\<lambda>u. toLowerCase ev (u_email u) = u_email u) (users w)"

section \<open>Decimal numerals and example data\<close>

text \<open>The decimal numeral of an integer, as a client writes it in a query string.\<close>

definition digitChar :: "nat \<Rightarrow> char" where
  "digitChar d = char_of (48 + d)"

fun showNat :: "nat \<Rightarrow> string" where
  "showNat n = (if n < 10 then [digitChar n] else showNat (n div 10) @ [digitChar (n mod 10)])"

declare showNat.simps [simp del]

definition showInt :: "int \<Rightarrow> string" where
  "showInt i = (if i < 0 then CHR ''-'' # showNat (nat (- i)) else showNat (nat i))"

definition exEnv :: env where
  "exEnv = \<lparr> toLowerCase = asciiLowerCase,
             uploadAnswer = (\<lambda>p. Some \<lparr> secure_url = Some (''https://media/'' @ p),
                                          public_id = Some ''pid-1'', duration = Some 12 \<rparr>),
             newId = ''n1'', now = 1000, hashPassword = (\<lambda>s. ''#'' @ s),
             castAvatar = (\<lambda>r. None),
             regexTest = (\<lambda>pat opts v. True), inTest = (\<lambda>v x. True), eqTest = (\<lambda>v x. True),
             rangeTest = (\<lambda>mn mx x. True), accepts = (\<lambda>c. True), sortKey = (\<lambda>f c. 0) \<rparr>"

definition alice :: user where
  "alice = \<lparr> u_id = ''u1'', u_name = Some ''Alice'', u_email = ''alice@example.com'',
             u_password = Some ''#pw'', u_role = ''instructor'', u_bio = None,
             u_avatar = ''default-avatar.png'', u_lastActive = 0 \<rparr>"

definition bob :: user where
  "bob = \<lparr> u_id = ''u2'', u_name = Some ''Bob'', u_email = ''bob@example.com'',
           u_password = Some ''#pw'', u_role = ''student'', u_bio = None,
           u_avatar = ''old-avatar.png'', u_lastActive = 0 \<rparr>"

definition course1 :: course where
  "course1 = \<lparr> c_id = ''c1'', c_title = Some ''HOL'', c_subtitle = None, c_description = None,
               c_category = Some ''logic'', c_level = Some ''beginner'', c_price = Some 10,
               c_thumbnail = ''thumb-1'', c_isPublished = True, c_instructor = ''u1'',
               c_lectures = [''l1'', ''l2''], c_enrolledStudents = [] \<rparr>"

definition course2 :: course where
  "course2 = course1\<lparr> c_id := ''c2'', c_title := Some ''Draft'', c_isPublished := False,
                      c_lectures := [] \<rparr>"

definition course3 :: course where
  "course3 = course1\<lparr> c_id := ''c3'', c_title := Some ''Isar'', c_lectures := [] \<rparr>"

definition lecture1 :: lecture where
  "lecture1 = \<lparr> l_id = ''l1'', l_title = Some ''Intro'', l_description = None,
                l_videoUrl = ''v1'', l_publicId = ''p1'', l_duration = 5,
                l_isPreview = Some True, l_order = 1 \<rparr>"

definition lecture2 :: lecture where
  "lecture2 = \<lparr> l_id = ''l2'', l_title = Some ''Proofs'', l_description = None,
                l_videoUrl = ''v2'', l_publicId = ''p2'', l_duration = 7,
                l_isPreview = Some False, l_order = 2 \<rparr>"

definition exWorld :: world where
  "exWorld = \<lparr> users = [alice, bob], courses = [course1, course2, course3],
               lectures = [lecture1, lecture2], media = [] \<rparr>"

definition noQuery :: query where
  "noQuery = \<lparr> q_query = None, q_categories = None, q_level = None, q_priceRange = None,
               q_sortBy = None, q_page = None, q_limit = None \<rparr>"

definition noBody :: body where
  "noBody = \<lparr> b_title = None, b_subtitle = None, b_description = None, b_category = None,
              b_level = None, b_price = None, b_isPreview = None, b_name = None,
              b_email = None, b_password = None, b_role = None, b_bio = None \<rparr>"

definition exReq :: request where
  "exReq = \<lparr> r_id = ''u1'', r_user = None, r_courseId = ''c1'', r_query = noQuery,
             r_body = noBody, r_file = None \<rparr>"

definition negReq :: request where
  "negReq = exReq\<lparr>r_query := noQuery\<lparr>q_page := Some (QStr ''-2''), q_limit := Some (QStr ''-3'')\<rparr>\<rparr>"

definition limReq :: request where
  "limReq = exReq\<lparr>r_query := noQuery\<lparr>q_limit := Some (QStr ''-1'')\<rparr>\<rparr>"

definition pageReq :: request where
  "pageReq = exReq\<lparr>r_query := noQuery\<lparr>q_page := Some (QStr ''2''), q_limit := Some (QStr ''1'')\<rparr>\<rparr>"

definition searchReqA :: request where
  "searchReqA = exReq\<lparr>r_query := noQuery\<lparr>q_query := Some (QStr ''hol''),
       q_categories := Some (QArr [''logic'']), q_level := Some (QStr ''beginner''),
       q_priceRange := Some (QStr ''5-20''), q_sortBy := Some (QStr ''price-low'')\<rparr>\<rparr>"

definition searchReqB :: request where
  "searchReqB = searchReqA\<lparr>r_id := ''u2'', r_courseId := ''c7'', r_file := Some ''f'',
       r_query := (r_query searchReqA)\<lparr>q_page := Some (QStr ''4'')\<rparr>\<rparr>"

definition searchCritA :: search_criteria where
  "searchCritA = \<lparr> sc_isPublished = True,
       sc_or = [(Title, QStr ''hol'', ''i''), (Subtitle, QStr ''hol'', ''i''),
                (Description, QStr ''hol'', ''i'')],
       sc_category = Some (QArr [''logic'']), sc_level = Some (QStr ''beginner''),
       sc_price = Some (''5'', Some ''20'') \<rparr>"

definition lectureReq :: request where
  "lectureReq = exReq\<lparr>r_body := noBody\<lparr>b_title := Some ''Sets'', b_isPreview := Some False\<rparr>,
                          r_file := Some ''sets.mp4''\<rparr>"

definition lecture3 :: lecture where
  "lecture3 = \<lparr> l_id = ''n1'', l_title = Some ''Sets'', l_description = None,
                l_videoUrl = ''https://media/sets.mp4'', l_publicId = ''pid-1'', l_duration = 12,
                l_isPreview = Some False, l_order = 3 \<rparr>"

definition titleReq :: request where
  "titleReq = exReq\<lparr>r_body := noBody\<lparr>b_title := Some ''HOL, second edition''\<rparr>\<rparr>"

definition avatarReq :: request where
  "avatarReq = exReq\<lparr>r_id := ''u2'', r_user := Some bob,
                         r_body := noBody\<lparr>b_email := Some ''bob@example.com''\<rparr>,
                         r_file := Some ''new.png''\<rparr>"

definition bigPageReq :: request where
  "bigPageReq = exReq\<lparr>r_query := noQuery\<lparr>q_page := Some (QStr ''9007199254740993'')\<rparr>\<rparr>"

definition signupReq :: request where
  "signupReq = exReq\<lparr>r_body := noBody\<lparr>b_email := Some ''Bob@Example.COM''\<rparr>\<rparr>"

section \<open>Properties\<close>

subsection \<open>Helper lemmas\<close>

lemma lowerChar_idem: "lowerChar (lowerChar c) = lowerChar c"
  by (auto simp: lowerChar_def Let_def)

lemma asciiLowerCase_idem: "asciiLowerCase (asciiLowerCase s) = asciiLowerCase s"
  by (simp add: asciiLowerCase_def lowerChar_idem)

lemma find_Some_ex: "(\<exists>x\<in>set xs. P x) \<Longrightarrow> \<exists>y. find P xs = Some y"
  by (induction xs) auto

lemma find_updateFirst:
  assumes "\<And>x. P x \<Longrightarrow> P (f x)"
  shows "find P (updateFirst P f xs) = map_option f (find P xs)"
  using assms by (induction xs) auto

lemma find_updateFirst_other:
  assumes "\<And>x. Q (f x) = Q x" and "\<And>x. P x \<Longrightarrow> \<not> Q x"
  shows "find Q (updateFirst P f xs) = find Q xs"
  using assms by (induction xs) auto

lemma digitValue_digitChar: "d < 10 \<Longrightarrow> digitValue (digitChar d) = Some d"
  by (simp add: digitValue_def digitChar_def Let_def)

lemma of_char_digitChar: "d < 10 \<Longrightarrow> (of_char (digitChar d) :: nat) = 48 + d"
  by (simp add: digitChar_def)

lemma showNat_digits: "c \<in> set (showNat n) \<Longrightarrow> \<exists>d<10. c = digitChar d"
proof (induction n arbitrary: c rule: showNat.induct)
  case (1 n)
  show ?case
  proof (cases "n < 10")
    case True
    with "1.prems" show ?thesis
      by (subst (asm) showNat.simps) auto
  next
    case False
    with "1.prems" have "c \<in> set (showNat (n div 10)) \<or> c = digitChar (n mod 10)"
      by (subst (asm) showNat.simps) auto
    then show ?thesis
    proof
      assume "c \<in> set (showNat (n div 10))"
      with False "1.IH" show ?thesis by blast
    next
      assume "c = digitChar (n mod 10)"
      moreover have "n mod 10 < 10" by simp
      ultimately show ?thesis by blast
    qed
  qed
qed

lemma showNat_nonempty: "showNat n \<noteq> []"
  by (subst showNat.simps) simp

lemma digitsValue_snoc:
  "digitsValue r (ds @ [c])
     = digitsValue r ds * int r + (case digitValue c of None \<Rightarrow> 0 | Some v \<Rightarrow> int v)"
  by (simp add: digitsValue_def)

lemma digitsValue_showNat: "digitsValue 10 (showNat n) = int n"
proof (induction n rule: showNat.induct)
  case (1 n)
  show ?case
  proof (cases "n < 10")
    case True
    then show ?thesis
      by (subst showNat.simps) (simp add: digitsValue_def digitValue_digitChar)
  next
    case False
    have m: "n mod 10 < 10" by simp
    from False "1.IH" have "digitsValue 10 (showNat (n div 10)) = int (n div 10)" by simp
    moreover have "int (n div 10) * 10 + int (n mod 10) = int n"
      by presburger
    ultimately show ?thesis
      using False by (subst showNat.simps) (simp add: digitsValue_snoc digitValue_digitChar [OF m])
  qed
qed

lemma wsLength_other:
  assumes "(of_char c :: nat) \<notin> {9, 10, 11, 12, 13, 32, 194, 225, 226, 227, 239}"
  shows "wsLength (c # cs) = 0"
  using assms by (simp add: wsLength_def split: list.splits)

lemma trimStart_no_space: "wsLength s = 0 \<Longrightarrow> trimStart s = s"
  by (subst trimStart.simps) simp

lemma digitChar_props:
  assumes "d < 10"
  shows "isDigit 10 (digitChar d)" "wsLength (digitChar d # cs) = 0"
    "digitChar d \<noteq> CHR ''-''" "digitChar d \<noteq> CHR ''+''"
    "digitChar d \<noteq> CHR ''x''" "digitChar d \<noteq> CHR ''X''"
proof -
  show "isDigit 10 (digitChar d)"
    using assms by (simp add: isDigit_def digitValue_digitChar)
  show "wsLength (digitChar d # cs) = 0"
    using assms by (intro wsLength_other) (simp add: of_char_digitChar)
  have ne: "\<And>c. (of_char c :: nat) \<noteq> 48 + d \<Longrightarrow> digitChar d \<noteq> c"
    using assms of_char_digitChar by metis
  show "digitChar d \<noteq> CHR ''-''" using assms by (intro ne) simp
  show "digitChar d \<noteq> CHR ''+''" using assms by (intro ne) simp
  show "digitChar d \<noteq> CHR ''x''" using assms by (intro ne) simp
  show "digitChar d \<noteq> CHR ''X''" using assms by (intro ne) simp
qed

lemma parseDigits_showNat: "parseDigits 10 (showNat n) = Some (int n)"
proof -
  have tw: "takeWhile (isDigit 10) (showNat n) = showNat n"
    using showNat_digits digitChar_props(1) by (fastforce simp: takeWhile_eq_all_conv)
  show ?thesis
    by (simp add: parseDigits_def Let_def tw showNat_nonempty digitsValue_showNat)
qed

lemma stripPrefix_showNat: "stripPrefix (showNat n) = (10, showNat n)"
proof (cases "showNat n")
  case Nil
  then show ?thesis by (simp add: stripPrefix_def)
next
  case (Cons c0 cs)
  show ?thesis
  proof (cases cs)
    case Nil
    with Cons show ?thesis by (simp add: stripPrefix_def)
  next
    case (Cons c1 rest)
    with \<open>showNat n = c0 # cs\<close> have "c1 \<in> set (showNat n)" by simp
    then obtain d where "d < 10" "c1 = digitChar d"
      using showNat_digits by blast
    then have "c1 \<noteq> CHR ''x''" "c1 \<noteq> CHR ''X''"
      using digitChar_props by auto
    with Cons \<open>showNat n = c0 # cs\<close> show ?thesis
      by (simp add: stripPrefix_def)
  qed
qed

lemma hd_showNat: "\<exists>d<10. hd (showNat n) = digitChar d"
  using showNat_digits [of "hd (showNat n)" n] showNat_nonempty [of n] by simp

lemma parseInt_showNat: "parseInt (showNat n) = toNumber (int n)"
proof -
  obtain d where d: "d < 10" "hd (showNat n) = digitChar d"
    using hd_showNat by blast
  obtain c cs where s: "showNat n = c # cs"
    using showNat_nonempty [of n] by (cases "showNat n") auto
  with d have c: "c = digitChar d" by simp
  have ws: "trimStart (showNat n) = showNat n"
    using s c digitChar_props(2) [OF d(1)] by (simp add: trimStart_no_space)
  have "parseInt (showNat n)
          = (case parseDigits 10 (showNat n) of None \<Rightarrow> NaN | Some v \<Rightarrow> toNumber (1 * v))"
    unfolding parseInt_def ws Let_def
    using s c digitChar_props(3,4) [OF d(1)] stripPrefix_showNat [of n]
    by simp
  then show ?thesis
    by (simp add: parseDigits_showNat)
qed

lemma parseInt_showInt: "parseInt (showInt i) = toNumber i"
proof (cases "i < 0")
  case False
  then show ?thesis
    by (simp add: showInt_def parseInt_showNat)
next
  case True
  have "wsLength (CHR ''-'' # showNat (nat (- i))) = 0"
    by (intro wsLength_other) simp
  then have ws: "trimStart (CHR ''-'' # showNat (nat (- i))) = CHR ''-'' # showNat (nat (- i))"
    by (rule trimStart_no_space)
  have "parseInt (CHR ''-'' # showNat (nat (- i)))
          = (case parseDigits 10 (showNat (nat (- i))) of
               None \<Rightarrow> NaN | Some v \<Rightarrow> toNumber (- 1 * v))"
    unfolding parseInt_def ws Let_def
    by (simp add: stripPrefix_showNat)
  with True show ?thesis
    by (simp add: showInt_def parseDigits_showNat)
qed

lemma parseInt_empty:
  assumes "trimStart s = []"
  shows "parseInt s = NaN"
  using assms by (simp add: parseInt_def stripPrefix_def parseDigits_def)

lemma parseInt_non_numeric:
  assumes "trimStart s = c # cs" "c \<noteq> CHR ''-''" "c \<noteq> CHR ''+''" "\<not> isDigit 10 c"
  shows "parseInt s = NaN"
proof -
  have "c \<noteq> CHR ''0''"
    using assms(4) by (auto simp: isDigit_def digitValue_def)
  then have "stripPrefix (c # cs) = (10, c # cs)"
    by (simp add: stripPrefix_def split: list.splits)
  then show ?thesis
    using assms by (simp add: parseInt_def parseDigits_def)
qed

text \<open>Rounding to a double: exact below \<open>2^53\<close>, and never below \<open>2^53\<close> from there on.\<close>

lemma bits_upper: "0 \<le> m \<Longrightarrow> m < 2 ^ bits m"
proof (induction m rule: bits.induct)
  case (1 n)
  show ?case
  proof (cases "n \<le> 0")
    case True
    with "1.prems" show ?thesis
      by (subst bits.simps) simp
  next
    case False
    then have "0 \<le> n div 2" by simp
    with False "1.IH" have "n div 2 < 2 ^ bits (n div 2)" by simp
    then have "n < 2 * 2 ^ bits (n div 2)" by linarith
    with False show ?thesis
      by (subst bits.simps) simp
  qed
qed

lemma bits_lower: "0 < m \<Longrightarrow> 2 ^ (bits m - 1) \<le> m"
proof (induction m rule: bits.induct)
  case (1 n)
  from "1.prems" have pos: "\<not> n \<le> 0" by simp
  then have b: "bits n = Suc (bits (n div 2))"
    by (subst bits.simps) simp
  show ?case
  proof (cases "0 < n div 2")
    case False
    with pos have "n div 2 \<le> 0" by simp
    then have "bits (n div 2) = 0"
      by (subst bits.simps) simp
    with b "1.prems" show ?thesis by simp
  next
    case True
    with pos "1.IH" have ih: "2 ^ (bits (n div 2) - 1) \<le> n div 2" by simp
    from True have "bits (n div 2) = Suc (bits (n div 2 div 2))"
      by (subst bits.simps) simp
    then have "bits (n div 2) = Suc (bits (n div 2) - 1)"
      by simp
    then have "(2::int) ^ bits (n div 2) = 2 * 2 ^ (bits (n div 2) - 1)"
      by (metis power_Suc)
    with ih have "2 ^ bits (n div 2) \<le> 2 * (n div 2)" by simp
    also have "\<dots> \<le> n" by simp
    finally show ?thesis
      using b by simp
  qed
qed

lemma roundMag_small: "m < 2 ^ 53 \<Longrightarrow> roundMag m = m"
  by (simp add: roundMag_def)

lemma roundMag_large:
  assumes "2 ^ 53 \<le> m"
  shows "2 ^ 53 \<le> roundMag m"
proof -
  define e where "e = bits m - 53"
  define q where "q = m div 2 ^ e"
  from assms have m0: "0 < m" "0 \<le> m" by simp_all
  have "(2::int) ^ 53 < 2 ^ bits m"
    using assms bits_upper [OF m0(2)] by linarith
  then have b: "53 < bits m"
    by (simp only: power_strict_increasing_iff)
  then have e1: "1 \<le> e" and be: "bits m - 1 = 52 + e"
    by (simp_all add: e_def)
  from bits_lower [OF m0(1)] be have "(2::int) ^ 52 * 2 ^ e \<le> m"
    by (simp add: power_add)
  then have "((2::int) ^ 52 * 2 ^ e) div 2 ^ e \<le> m div 2 ^ e"
    by (intro zdiv_mono1) simp_all
  then have q52: "2 ^ 52 \<le> q"
    by (simp add: q_def)
  have "(2::int) ^ 1 \<le> 2 ^ e"
    using e1 by (intro power_increasing) simp_all
  then have e2: "(2::int) \<le> 2 ^ e" by simp
  have "(2::int) ^ 53 = 2 ^ 52 * 2" by simp
  also have "\<dots> \<le> q * 2 ^ e"
    using q52 e2 by (intro mult_mono) simp_all
  finally have lo: "2 ^ 53 \<le> q * 2 ^ e" .
  have "q * 2 ^ e \<le> (q + 1) * 2 ^ e"
    by (simp add: algebra_simps)
  with lo have hi: "2 ^ 53 \<le> (q + 1) * 2 ^ e" by linarith
  from assms have "roundMag m = q * 2 ^ e \<or> roundMag m = (q + 1) * 2 ^ e"
    by (auto simp: roundMag_def Let_def e_def q_def)
  with lo hi show ?thesis by auto
qed

lemma toNumber_small: "\<bar>i\<bar> < 2 ^ 53 \<Longrightarrow> toNumber i = Fin i"
  by (auto simp: toNumber_def roundMag_small Let_def)

lemma toNumber_near:
  assumes "0 \<le> x" and "toNumber x = Fin y"
  shows "y = x \<or> (2 ^ 53 \<le> x \<and> 2 ^ 53 \<le> y)"
proof (cases "x < 2 ^ 53")
  case True
  with assms show ?thesis
    by (simp add: toNumber_small)
next
  case False
  then have "2 ^ 53 \<le> roundMag x"
    by (intro roundMag_large) simp
  moreover from assms have "y = roundMag x"
    by (simp add: toNumber_def Let_def split: if_splits)
  ultimately show ?thesis
    using False by simp
qed

lemma length_sortCourses: "length (sortCourses ev so cs) = length cs"
  by (simp add: sortCourses_def)

lemma set_sortCourses: "set (sortCourses ev so cs) = set cs"
  by (simp add: sortCourses_def)

lemma skip_limit_length:
  assumes "0 \<le> k" "1 \<le> L"
  shows "int (min (length xs - nat k) (nat L)) = min L (max 0 (int (length xs) - k))"
  using assms by linarith

lemma ceil_div_pos:
  assumes "1 \<le> (L::int)"
  shows "\<lceil>real_of_int t / real_of_int L\<rceil> = (t + L - 1) div L"
proof -
  have L0: "L \<noteq> 0" using assms by simp
  have r: "0 \<le> t mod L" "t mod L < L" using assms by simp_all
  have "t + L - 1 = L * (t div L) + (t mod L + L - 1)"
    by (simp add: algebra_simps)
  then have "(t + L - 1) div L = (L * (t div L) + (t mod L + L - 1)) div L"
    by (rule arg_cong)
  also have "\<dots> = t div L + (t mod L + L - 1) div L"
    using L0 by (rule div_mult_self4)
  finally have e: "(t + L - 1) div L = t div L + (t mod L + L - 1) div L" .
  have c: "\<lceil>real_of_int t / real_of_int L\<rceil> = - (- t div L)"
    by (rule ceiling_divide_eq_div)
  show ?thesis
  proof (cases "t mod L = 0")
    case True
    have "(L - 1) div L = 0"
      using assms by (intro div_pos_pos_trivial) simp_all
    with True e have "(t + L - 1) div L = t div L" by simp
    moreover from True L0 have "- t div L = - (t div L)"
      by (simp add: zdiv_zminus1_eq_if)
    ultimately show ?thesis using c by simp
  next
    case False
    with r have "0 \<le> t mod L - 1" "t mod L - 1 < L" by simp_all
    then have "(t mod L - 1) div L = 0"
      by (intro div_pos_pos_trivial)
    moreover have "(t mod L - 1 + L) div L = (t mod L - 1) div L + 1"
      using L0 by (rule div_add_self2)
    ultimately have "(t mod L - 1 + L) div L = 1" by simp
    moreover have "t mod L + L - 1 = t mod L - 1 + L" by simp
    ultimately have "(t mod L + L - 1) div L = 1" by (simp only:)
    with e have "(t + L - 1) div L = t div L + 1" by simp
    moreover from False L0 have "- t div L = - (t div L) - 1"
      by (simp add: zdiv_zminus1_eq_if)
    ultimately show ?thesis using c by simp
  qed
qed

lemma findCourseById_id: "findCourseById w i = Some c \<Longrightarrow> c_id c = i"
  by (auto simp: findCourseById_def find_Some_iff)

lemma applyCourseUpdate_id: "c_id (applyCourseUpdate b t c) = c_id c"
  by (simp add: applyCourseUpdate_def)

lemma searchCriteria_published: "searchCriteria req = Inr crit \<Longrightarrow> sc_isPublished crit"
  by (auto simp: searchCriteria_def Let_def split: if_splits option.splits qval.splits list.splits)

lemma list_all_updateFirst:
  "list_all Q xs \<Longrightarrow> (\<And>x. Q x \<Longrightarrow> Q (f x)) \<Longrightarrow> list_all Q (updateFirst P f xs)"
  by (induction xs) auto

lemma createUserAccount_keeps_lowercase:
  assumes "emailsLowerCase ev w"
    and "\<And>s. toLowerCase ev (toLowerCase ev s) = toLowerCase ev s"
  shows "emailsLowerCase ev (snd (createUserAccount ev req w))"
  using assms
  by (auto simp: createUserAccount_def emailsLowerCase_def Let_def
      split: option.splits intro!: list_all_updateFirst)

lemma saveProfile_keeps_lowercase:
  assumes "emailsLowerCase ev w"
    and "\<And>s. toLowerCase ev (toLowerCase ev s) = toLowerCase ev s"
  shows "emailsLowerCase ev (snd (saveProfile ev req email avatar w))"
proof -
  have "list_all (\<lambda>u. toLowerCase ev (u_email u) = u_email u)
          (updateFirst P (applyProfileUpdate a (toLowerCase ev email) b c) (users w))" for P a b c
    using assms
    by (intro list_all_updateFirst) (simp_all add: emailsLowerCase_def applyProfileUpdate_def)
  with assms(1) show ?thesis
    by (auto simp: saveProfile_def emailsLowerCase_def Let_def split: option.splits)
qed

lemma emailsLowerCase_media: "emailsLowerCase ev (w\<lparr>media := m\<rparr>) = emailsLowerCase ev w"
  by (simp add: emailsLowerCase_def)

lemma updateUserProfile_keeps_lowercase:
  assumes "emailsLowerCase ev w"
    and "\<And>s. toLowerCase ev (toLowerCase ev s) = toLowerCase ev s"
  shows "emailsLowerCase ev (snd (updateUserProfile ev req w))"
  using assms
  by (auto simp: updateUserProfile_def Let_def saveProfile_keeps_lowercase emailsLowerCase_media
      split: option.splits)

lemma saveProfile_media: "media (snd (saveProfile ev req email avatar w)) = media w"
  by (simp add: saveProfile_def Let_def split: option.splits)

text \<open>
  Beyond \<open>2^53\<close> the page is the double nearest to the numeral, and the skip is rounded
  again.
\<close>

lemma pageParams_rounds:
  "pageParams bigPageReq = (Fin 9007199254740992, Fin 10, Fin 90071992547409904)"
  by code_simp

text \<open>White space outside ASCII is skipped as well: U+00A0 before the digit.\<close>

lemma parseInt_skips_nbsp: "parseInt [char_of (194::nat), char_of (160::nat), CHR ''7''] = Fin 7"
  by code_simp

subsection \<open>Ownership guard\<close>

text \<open>
  Claim C1. For \<open>updateCourseDetails\<close> and \<open>addLectureToCourse\<close>: when no course has the
  given \<open>courseId\<close> the handler fails with 404; when the course exists and the caller's id
  differs from \<open>course.instructor\<close> it fails with 403, whatever the body and the file are.
  The store is left as it was in both cases. The 404 does not depend on the caller, so the
  existence check comes first.
\<close>

theorem ownership_guard:
  "(findCourseById w (r_courseId req) = None \<longrightarrow>
      updateCourseDetails ev req w = (Inl (AppError ''Course not found'' 404), w) \<and>
      addLectureToCourse ev req w = (Inl (AppError ''Course not found'' 404), w))
   \<and> (\<forall>course. findCourseById w (r_courseId req) = Some course \<and> c_instructor course \<noteq> r_id req \<longrightarrow>
      updateCourseDetails ev req w
        = (Inl (AppError ''You are not authorized to update this course'' 403), w) \<and>
      addLectureToCourse ev req w
        = (Inl (AppError ''Not authorized to update this course'' 403), w))"
  by (simp add: updateCourseDetails_def addLectureToCourse_def)

theorem ownership_guard_witness:
  "findCourseById exWorld (r_courseId (exReq\<lparr>r_courseId := ''c9''\<rparr>)) = None
   \<and> updateCourseDetails exEnv (exReq\<lparr>r_courseId := ''c9''\<rparr>) exWorld
        = (Inl (AppError ''Course not found'' 404), exWorld)
   \<and> addLectureToCourse exEnv (exReq\<lparr>r_courseId := ''c9''\<rparr>) exWorld
        = (Inl (AppError ''Course not found'' 404), exWorld)
   \<and> findCourseById exWorld (r_courseId (exReq\<lparr>r_id := ''u2''\<rparr>)) = Some course1
   \<and> c_instructor course1 \<noteq> r_id (exReq\<lparr>r_id := ''u2''\<rparr>)
   \<and> updateCourseDetails exEnv (exReq\<lparr>r_id := ''u2''\<rparr>) exWorld
        = (Inl (AppError ''You are not authorized to update this course'' 403), exWorld)
   \<and> addLectureToCourse exEnv (exReq\<lparr>r_id := ''u2''\<rparr>) exWorld
        = (Inl (AppError ''Not authorized to update this course'' 403), exWorld)"
proof -
  have a: "findCourseById exWorld (r_courseId (exReq\<lparr>r_courseId := ''c9''\<rparr>)) = None"
    by code_simp
  have b: "findCourseById exWorld (r_courseId (exReq\<lparr>r_id := ''u2''\<rparr>)) = Some course1"
    by code_simp
  have c: "c_instructor course1 \<noteq> r_id (exReq\<lparr>r_id := ''u2''\<rparr>)"
    by code_simp
  show ?thesis
    using a b c ownership_guard [of exWorld "exReq\<lparr>r_courseId := ''c9''\<rparr>" exEnv]
      ownership_guard [of exWorld "exReq\<lparr>r_id := ''u2''\<rparr>" exEnv]
    by simp
qed

subsection \<open>Lecture visibility\<close>

text \<open>
  Claim C2. For a caller who is neither in the course's \<open>enrolledStudents\<close> nor its
  instructor, \<open>getCourseLectures\<close> answers with the preview lectures only: every lecture
  of the returned list has \<open>isPreview = true\<close>.
\<close>

theorem getCourseLectures_preview_only:
  assumes "findCourseById w (r_courseId req) = Some course"
    and "r_id req \<notin> set (c_enrolledStudents course)"
    and "c_instructor course \<noteq> r_id req"
  shows "\<exists>lecs. getCourseLectures ev req w = (Inr (200, LectureList lecs False False), w)
           \<and> (\<forall>l\<in>set lecs. v_isPreview l = Some True)
           \<and> lecs = filter (\<lambda>l. v_isPreview l = Some True) (populateLectures w (c_lectures course))"
  using assms by (simp add: getCourseLectures_def)

theorem getCourseLectures_preview_only_witness:
  "findCourseById exWorld (r_courseId (exReq\<lparr>r_id := ''u2''\<rparr>)) = Some course1
   \<and> r_id (exReq\<lparr>r_id := ''u2''\<rparr>) \<notin> set (c_enrolledStudents course1)
   \<and> c_instructor course1 \<noteq> r_id (exReq\<lparr>r_id := ''u2''\<rparr>)
   \<and> getCourseLectures exEnv (exReq\<lparr>r_id := ''u2''\<rparr>) exWorld
       = (Inr (200, LectureList [selectLecture lecture1] False False), exWorld)
   \<and> v_isPreview (selectLecture lecture1) = Some True"
proof -
  have a: "findCourseById exWorld (r_courseId (exReq\<lparr>r_id := ''u2''\<rparr>)) = Some course1"
    by code_simp
  have b: "r_id (exReq\<lparr>r_id := ''u2''\<rparr>) \<notin> set (c_enrolledStudents course1)"
    by code_simp
  have c: "c_instructor course1 \<noteq> r_id (exReq\<lparr>r_id := ''u2''\<rparr>)"
    by code_simp
  have d: "filter (\<lambda>l. v_isPreview l = Some True) (populateLectures exWorld (c_lectures course1))
             = [selectLecture lecture1]"
    by code_simp
  have e: "v_isPreview (selectLecture lecture1) = Some True"
    by code_simp
  show ?thesis
    using a b c d e getCourseLectures_preview_only [OF a b c, of exEnv] by simp
qed

subsection \<open>Signup conflict\<close>

text \<open>
  Claim C3. \<open>toLowerCase\<close> is the runtime's, whatever its case mapping is. In a store whose
  emails are in lower case (the data model's invariant, kept by every handler that writes an
  email), a signup whose email equals, ignoring case, the email of a stored user fails with
  409 and leaves the store as it was.
\<close>

theorem createUserAccount_conflict:
  assumes "emailsLowerCase ev w"
    and "b_email (r_body req) = Some email"
    and "\<exists>u\<in>set (users w). toLowerCase ev (u_email u) = toLowerCase ev email"
  shows "createUserAccount ev req w = (Inl (AppError ''User already exists'' 409), w)"
proof -
  from assms(3) obtain u where
    u: "u \<in> set (users w)" "toLowerCase ev (u_email u) = toLowerCase ev email"
    by blast
  from assms(1) u(1) have "toLowerCase ev (u_email u) = u_email u"
    by (simp add: emailsLowerCase_def list_all_iff)
  with u have "\<exists>x\<in>set (users w). u_email x = toLowerCase ev email"
    by auto
  then obtain y where "findUserByEmail w (toLowerCase ev email) = Some y"
    unfolding findUserByEmail_def
    using find_Some_ex [of "users w" "\<lambda>u. u_email u = toLowerCase ev email"] by blast
  then show ?thesis
    using assms(2) by (simp add: createUserAccount_def)
qed

theorem createUserAccount_conflict_witness:
  "emailsLowerCase exEnv exWorld
   \<and> b_email (r_body signupReq) = Some ''Bob@Example.COM''
   \<and> bob \<in> set (users exWorld)
   \<and> toLowerCase exEnv (u_email bob) = toLowerCase exEnv ''Bob@Example.COM''
   \<and> createUserAccount exEnv signupReq exWorld
       = (Inl (AppError ''User already exists'' 409), exWorld)"
proof -
  have a: "emailsLowerCase exEnv exWorld"
    by code_simp
  have b: "b_email (r_body signupReq) = Some ''Bob@Example.COM''"
    by (simp add: signupReq_def)
  have c: "toLowerCase exEnv (u_email bob) = toLowerCase exEnv ''Bob@Example.COM''"
    by code_simp
  have d: "bob \<in> set (users exWorld)"
    by (simp add: exWorld_def)
  from c d have e: "\<exists>u\<in>set (users exWorld).
      toLowerCase exEnv (u_email u) = toLowerCase exEnv ''Bob@Example.COM''"
    by blast
  show ?thesis
    using a b c d createUserAccount_conflict [OF a b e] by simp
qed

subsection \<open>Pagination\<close>

text \<open>
  Claim C4, as amended. Page and limit are the doubles that \<open>parseInt(x) || default\<close>
  gives. For \<open>tot\<close> published courses (fewer than \<open>2^53\<close>) and a request whose page \<open>p\<close>
  and limit \<open>L\<close> are integers that are both at least 1, and whose skip and limit the cursor
  accepts (both below \<open>2^63\<close>), \<open>getPublishedCourses\<close> answers with
  \<open>pages = ceil(tot / L)\<close> and with \<open>min(L, max(0, tot - (p - 1) * L))\<close> course records.
\<close>

theorem getPublishedCourses_pagination:
  assumes "pageParams req = (Fin p, Fin L, Fin s)"
    and "1 \<le> p" and "1 \<le> L"
    and "s < 2 ^ 63" and "L < 2 ^ 63"
    and "tot = int (length (filter c_isPublished (courses w)))"
    and "tot < 2 ^ 53"
  shows "\<exists>data pages. getPublishedCourses ev req w
             = (Inr (200, CoursePage data \<lparr> p_page = Fin p, p_limit = Fin L, p_total = tot,
                                              p_pages = Fin pages \<rparr>), w)
           \<and> pages = \<lceil>real_of_int tot / real_of_int L\<rceil>
           \<and> pages = (tot + L - 1) div L
           \<and> int (length data) = min L (max 0 (tot - (p - 1) * L))"
proof -
  define xs where "xs = sortCourses ev (CreatedAt, - 1) (filter c_isPublished (courses w))"
  have lx: "int (length xs) = tot"
    by (simp add: xs_def assms(6) length_sortCourses)
  from assms(1) have sk: "jsMul (jsSub (Fin p) (Fin 1)) (Fin L) = Fin s"
    by (auto simp: pageParams_def Let_def)
  obtain a where a: "toNumber (p - 1) = Fin a"
    using sk assms(3) by (cases "toNumber (p - 1)") (auto split: if_splits)
  with sk have s: "toNumber (a * L) = Fin s"
    by simp
  from assms(2) a have na: "a = p - 1 \<or> (2 ^ 53 \<le> p - 1 \<and> 2 ^ 53 \<le> a)"
    by (intro toNumber_near) simp_all
  then have a0: "0 \<le> a"
    using assms(2) by auto
  define A where "A = a * L"
  define P where "P = (p - 1) * L"
  have aL: "a \<le> A"
    unfolding A_def using mult_left_mono [OF assms(3) a0] by simp
  have p0: "0 \<le> p - 1"
    using assms(2) by simp
  have pL: "p - 1 \<le> P"
    unfolding P_def using mult_left_mono [OF assms(3) p0] by simp
  from a0 aL have al0: "0 \<le> A"
    by linarith
  with s have ns: "s = A \<or> (2 ^ 53 \<le> A \<and> 2 ^ 53 \<le> s)"
    unfolding A_def by (intro toNumber_near)
  have nearP: "s = P \<or> (2 ^ 53 \<le> P \<and> 2 ^ 53 \<le> s)"
  proof (cases "a = p - 1")
    case True
    then have "A = P"
      by (simp add: A_def P_def)
    with ns show ?thesis
      by simp
  next
    case False
    with na have "2 ^ 53 \<le> p - 1" "2 ^ 53 \<le> a"
      by auto
    with aL pL have "2 ^ 53 \<le> A" "2 ^ 53 \<le> P"
      by linarith+
    with ns show ?thesis
      by auto
  qed
  then have near: "s = (p - 1) * L \<or> (2 ^ 53 \<le> (p - 1) * L \<and> 2 ^ 53 \<le> s)"
    by (simp add: P_def)
  from ns al0 have s0: "0 \<le> s"
    by auto
  have sd: "skipDocs (Fin s) xs = Inr (drop (nat s) xs)"
    using s0 assms(4) by (simp add: skipDocs_def)
  have ld: "limitDocs (Fin L) (drop (nat s) xs) = Inr (take (nat L) (drop (nat s) xs))"
    using assms(3,5) by (simp add: limitDocs_def)
  have r: "getPublishedCourses ev req w
      = (Inr (200, CoursePage (map (populateInstructor w) (take (nat L) (drop (nat s) xs)))
            \<lparr> p_page = Fin p, p_limit = Fin L, p_total = tot,
              p_pages = Fin \<lceil>real_of_int tot / real_of_int L\<rceil> \<rparr>), w)"
    using sd ld assms(3)
    by (simp add: getPublishedCourses_def Let_def assms(1) assms(6) [symmetric]
        xs_def [symmetric] jsCeilDiv_def)
  have c: "\<lceil>real_of_int tot / real_of_int L\<rceil> = (tot + L - 1) div L"
    using assms(3) by (rule ceil_div_pos)
  have "int (length (map (populateInstructor w) (take (nat L) (drop (nat s) xs))))
          = int (min (length xs - nat s) (nat L))"
    by simp
  also have "\<dots> = min L (max 0 (int (length xs) - s))"
    using s0 assms(3) by (rule skip_limit_length)
  also have "\<dots> = min L (max 0 (tot - (p - 1) * L))"
    using near assms(7) lx by auto
  finally have len: "int (length (map (populateInstructor w) (take (nat L) (drop (nat s) xs))))
      = min L (max 0 (tot - (p - 1) * L))" .
  from r c len show ?thesis
    by blast
qed

theorem getPublishedCourses_pagination_witness:
  "pageParams pageReq = (Fin 2, Fin 1, Fin 1) \<and> (1::int) \<le> 2 \<and> (1::int) \<le> 1
   \<and> (1::int) < 2 ^ 63
   \<and> (2::int) = int (length (filter c_isPublished (courses exWorld)))
   \<and> (2::int) < 2 ^ 53
   \<and> getPublishedCourses exEnv pageReq exWorld
       = (Inr (200, CoursePage [populateInstructor exWorld course3]
                      \<lparr> p_page = Fin 2, p_limit = Fin 1, p_total = 2, p_pages = Fin 2 \<rparr>),
          exWorld)
   \<and> int (length [populateInstructor exWorld course3]) = min 1 (max 0 (2 - (2 - 1) * 1))"
proof -
  have a: "pageParams pageReq = (Fin 2, Fin 1, Fin 1)" by code_simp
  have b: "(2::int) = int (length (filter c_isPublished (courses exWorld)))" by code_simp
  have d: "getPublishedCourses exEnv pageReq exWorld
       = (Inr (200, CoursePage [populateInstructor exWorld course3]
                      \<lparr> p_page = Fin 2, p_limit = Fin 1, p_total = 2, p_pages = Fin 2 \<rparr>),
          exWorld)"
    by code_simp
  show ?thesis
    using a b d getPublishedCourses_pagination [OF a _ _ _ _ b, of exEnv] by simp
qed

text \<open>
  The claim as stated, for every limit, fails at \<open>limit=-1\<close>: the handler passes \<open>-1\<close> to
  the cursor and answers with one record, where the formula gives \<open>-1\<close>.
\<close>

theorem getPublishedCourses_negative_limit:
  "pageParams limReq = (Fin 1, Fin (- 1), Fin 0)
   \<and> int (length (filter c_isPublished (courses exWorld))) = 2
   \<and> getPublishedCourses exEnv limReq exWorld
       = (Inr (200, CoursePage [populateInstructor exWorld course1]
                      \<lparr> p_page = Fin 1, p_limit = Fin (- 1), p_total = 2,
                        p_pages = Fin (- 2) \<rparr>), exWorld)
   \<and> int (length [populateInstructor exWorld course1]) \<noteq> min (- 1) (max 0 (2 - (1 - 1) * (- 1)))"
proof -
  have a: "pageParams limReq = (Fin 1, Fin (- 1), Fin 0)" by code_simp
  have b: "int (length (filter c_isPublished (courses exWorld))) = 2" by code_simp
  have d: "getPublishedCourses exEnv limReq exWorld
       = (Inr (200, CoursePage [populateInstructor exWorld course1]
                      \<lparr> p_page = Fin 1, p_limit = Fin (- 1), p_total = 2,
                        p_pages = Fin (- 2) \<rparr>), exWorld)"
    by code_simp
  show ?thesis
    using a b d by simp
qed

subsection \<open>Page and limit defaults\<close>

text \<open>
  Claim C10. In \<open>getPublishedCourses\<close> the page is \<open>parseInt(page) || 1\<close> and the limit is
  \<open>parseInt(limit) || 10\<close>. An absent parameter gives the default. So does one that
  \<open>parseInt\<close> reads as \<open>NaN\<close>: for instance one that is empty after its leading white
  space, or whose first character after it is no sign and no digit. So does one read as
  zero. A negative value that \<open>parseInt\<close> yields is kept as it is, and goes unchanged into
  \<open>skip = (page - 1) * limit\<close> and the limit; the numeral of a negative integer above
  \<open>-2^53\<close> is read as that integer.
\<close>

theorem pageParams_defaults:
  "pageParams req = (parseIntOr (q_page (r_query req)) (Fin 1),
                     parseIntOr (q_limit (r_query req)) (Fin 10),
                     jsMul (jsSub (parseIntOr (q_page (r_query req)) (Fin 1)) (Fin 1))
                           (parseIntOr (q_limit (r_query req)) (Fin 10)))
   \<and> parseIntOr None d = d
   \<and> (parseInt (toStringQ v) = NaN \<longrightarrow> parseIntOr (Some v) d = d)
   \<and> (trimStart s = [] \<longrightarrow> parseIntOr (Some (QStr s)) d = d)
   \<and> (trimStart s = c # cs \<and> c \<noteq> CHR ''-'' \<and> c \<noteq> CHR ''+'' \<and> \<not> isDigit 10 c \<longrightarrow>
        parseIntOr (Some (QStr s)) d = d)
   \<and> (parseInt (toStringQ v) = Fin 0 \<longrightarrow> parseIntOr (Some v) d = d)
   \<and> parseIntOr (Some (QStr (showInt 0))) d = d
   \<and> (parseInt (toStringQ v) = Fin n \<and> n < 0 \<longrightarrow> parseIntOr (Some v) d = Fin n)
   \<and> (parseInt (toStringQ v) = NegInf \<longrightarrow> parseIntOr (Some v) d = NegInf)
   \<and> (n < 0 \<and> - (2 ^ 53) < n \<longrightarrow> parseIntOr (Some (QStr (showInt n))) d = Fin n)"
proof -
  have z: "parseInt (showInt 0) = Fin 0"
    by (simp add: parseInt_showInt toNumber_small)
  have neg: "parseInt (showInt n) = Fin n" if "n < 0" "- (2 ^ 53) < n"
    using that by (simp add: parseInt_showInt toNumber_small)
  show ?thesis
    using z neg
    by (auto simp: pageParams_def Let_def parseIntOr_def toStringQ_def
        parseInt_empty parseInt_non_numeric)
qed

theorem pageParams_defaults_witness:
  "parseInt (toStringQ (QStr ''abc'')) = NaN
   \<and> parseIntOr (Some (QStr ''abc'')) (Fin 1) = Fin 1
   \<and> trimStart '' '' = []
   \<and> parseIntOr (Some (QStr '' '')) (Fin 1) = Fin 1
   \<and> trimStart ''  abc'' = ''abc''
   \<and> CHR ''a'' \<noteq> CHR ''-'' \<and> CHR ''a'' \<noteq> CHR ''+'' \<and> \<not> isDigit 10 CHR ''a''
   \<and> parseIntOr (Some (QStr ''  abc'')) (Fin 1) = Fin 1
   \<and> parseInt (toStringQ (QStr ''0'')) = Fin 0
   \<and> parseIntOr (Some (QStr ''0'')) (Fin 10) = Fin 10
   \<and> parseInt (toStringQ (QStr ''-3'')) = Fin (- 3)
   \<and> (- 3 :: int) < 0 \<and> - (2 ^ 53) < (- 3 :: int)
   \<and> showInt (- 3) = ''-3''
   \<and> parseIntOr (Some (QStr ''-3'')) (Fin 10) = Fin (- 3)
   \<and> pageParams negReq = (Fin (- 2), Fin (- 3), Fin 9)"
proof -
  have a: "parseInt (toStringQ (QStr ''abc'')) = NaN" by code_simp
  have b: "trimStart '' '' = []" by code_simp
  have c: "trimStart ''  abc'' = ''abc''" by code_simp
  have c': "CHR ''a'' \<noteq> CHR ''-'' \<and> CHR ''a'' \<noteq> CHR ''+'' \<and> \<not> isDigit 10 CHR ''a''"
    by code_simp
  have e: "parseInt (toStringQ (QStr ''0'')) = Fin 0" by code_simp
  have f: "parseInt (toStringQ (QStr ''-3'')) = Fin (- 3)" by code_simp
  have g: "showInt (- 3) = ''-3''" by code_simp
  have h: "q_page (r_query negReq) = Some (QStr ''-2'')"
    "q_limit (r_query negReq) = Some (QStr ''-3'')"
    by (simp_all add: negReq_def)
  have i: "parseIntOr (Some (QStr ''-2'')) (Fin 1) = Fin (- 2)" by code_simp
  have j: "jsMul (jsSub (Fin (- 2)) (Fin 1)) (Fin (- 3)) = Fin 9" by code_simp
  show ?thesis
    using a b c c' e f g h i j
      pageParams_defaults [of negReq "Fin 1" "QStr ''abc''" "'' ''" "CHR ''a''" "''bc''" "- 3"]
      pageParams_defaults [of negReq "Fin 1" "QStr ''0''" "''  abc''" "CHR ''a''" "''bc''" "- 3"]
      pageParams_defaults [of negReq "Fin 10" "QStr ''0''" "''  abc''" "CHR ''a''" "''bc''" "- 3"]
      pageParams_defaults [of negReq "Fin 10" "QStr ''-3''" "''  abc''" "CHR ''a''" "''bc''" "- 3"]
    by simp
qed

subsection \<open>Search query construction\<close>

text \<open>
  Claim C5. The query object and the sort object that \<open>searchCourses\<close> builds depend on
  the request only through \<open>query\<close>, \<open>categories\<close>, \<open>level\<close>, \<open>priceRange\<close> and
  \<open>sortBy\<close>: two requests that agree on these five parameters, whatever else differs
  (caller, route parameter, file, other query parameters), give the same query
  specification and the same sort specification.
\<close>

theorem search_spec_deterministic:
  assumes "q_query (r_query r1) = q_query (r_query r2)"
    and "q_categories (r_query r1) = q_categories (r_query r2)"
    and "q_level (r_query r1) = q_level (r_query r2)"
    and "q_priceRange (r_query r1) = q_priceRange (r_query r2)"
    and "q_sortBy (r_query r1) = q_sortBy (r_query r2)"
  shows "searchCriteria r1 = searchCriteria r2 \<and> sortOptions r1 = sortOptions r2"
  unfolding searchCriteria_def sortOptions_def Let_def assms by (rule conjI; rule refl)

theorem search_spec_deterministic_witness:
  "q_query (r_query searchReqA) = q_query (r_query searchReqB)
   \<and> q_categories (r_query searchReqA) = q_categories (r_query searchReqB)
   \<and> q_level (r_query searchReqA) = q_level (r_query searchReqB)
   \<and> q_priceRange (r_query searchReqA) = q_priceRange (r_query searchReqB)
   \<and> q_sortBy (r_query searchReqA) = q_sortBy (r_query searchReqB)
   \<and> searchReqA \<noteq> searchReqB
   \<and> searchCriteria searchReqA = Inr searchCritA
   \<and> searchCriteria searchReqB = Inr searchCritA
   \<and> sortOptions searchReqA = (Price, 1)
   \<and> sortOptions searchReqB = (Price, 1)"
proof -
  have a: "q_query (r_query searchReqA) = q_query (r_query searchReqB)"
    and b: "q_categories (r_query searchReqA) = q_categories (r_query searchReqB)"
    and c: "q_level (r_query searchReqA) = q_level (r_query searchReqB)"
    and d: "q_priceRange (r_query searchReqA) = q_priceRange (r_query searchReqB)"
    and e: "q_sortBy (r_query searchReqA) = q_sortBy (r_query searchReqB)"
    by (simp_all add: searchReqB_def)
  have f: "searchReqA \<noteq> searchReqB" by code_simp
  have g: "searchCriteria searchReqA = Inr searchCritA" by code_simp
  have h: "sortOptions searchReqA = (Price, 1)" by code_simp
  show ?thesis
    using a b c d e f g h search_spec_deterministic [OF a b c d e] by simp
qed

text \<open>
  Claim C6. Every query object that \<open>searchCourses\<close> builds has \<open>isPublished: true\<close>, for
  all values of the text query, categories, level, price range and sort key, and whatever the
  datastore's operator tests are; so a course with \<open>isPublished = false\<close> is matched by no
  search, and every course that \<open>searchCourses\<close> or \<open>getPublishedCourses\<close> returns is
  published.
\<close>

theorem search_only_published:
  "(\<forall>crit. searchCriteria req = Inr crit \<longrightarrow>
       sc_isPublished crit \<and> (\<forall>c. matches ev crit c \<longrightarrow> c_isPublished c))
   \<and> (\<forall>st data n w'. searchCourses ev req w = (Inr (st, CourseList data n), w') \<longrightarrow>
         (\<forall>pc\<in>set data. c_isPublished (fst pc)))
   \<and> (\<forall>st data pg w'. getPublishedCourses ev req w = (Inr (st, CoursePage data pg), w') \<longrightarrow>
         (\<forall>pc\<in>set data. c_isPublished (fst pc)))"
proof (intro conjI allI impI)
  fix crit assume "searchCriteria req = Inr crit"
  then show "sc_isPublished crit" by (rule searchCriteria_published)
next
  fix crit c assume "searchCriteria req = Inr crit" "matches ev crit c"
  then show "c_isPublished c"
    using searchCriteria_published by (auto simp: matches_def)
next
  fix st data n w' assume r: "searchCourses ev req w = (Inr (st, CourseList data n), w')"
  show "\<forall>pc\<in>set data. c_isPublished (fst pc)"
  proof (cases "searchCriteria req")
    case (Inl e)
    with r show ?thesis by (simp add: searchCourses_def)
  next
    case (Inr crit)
    then have p: "sc_isPublished crit" by (rule searchCriteria_published)
    from r Inr have "data = map (populateInstructor w)
        (sortCourses ev (sortOptions req) (filter (matches ev crit) (courses w)))"
      by (auto simp: searchCourses_def Let_def split: if_splits)
    with p show ?thesis
      by (auto simp: set_sortCourses populateInstructor_def matches_def)
  qed
next
  fix st data pg w' assume r: "getPublishedCourses ev req w = (Inr (st, CoursePage data pg), w')"
  obtain p L s where pp: "pageParams req = (p, L, s)"
    by (cases "pageParams req") auto
  from r pp obtain rest found where
    rest: "skipDocs s (sortCourses ev (CreatedAt, - 1) (filter c_isPublished (courses w))) = Inr rest"
    and found: "limitDocs L rest = Inr found"
    and data: "data = map (populateInstructor w) found"
    by (auto simp: getPublishedCourses_def Let_def split: sum.splits)
  from rest have "set rest \<subseteq> set (filter c_isPublished (courses w))"
    by (auto simp: skipDocs_def set_sortCourses split: jsnum.splits if_splits dest: in_set_dropD)
  moreover from found have "set found \<subseteq> set rest"
    by (auto simp: limitDocs_def split: jsnum.splits if_splits dest: in_set_takeD)
  ultimately show "\<forall>pc\<in>set data. c_isPublished (fst pc)"
    using data by (auto simp: populateInstructor_def)
qed

theorem search_only_published_witness:
  "searchCriteria searchReqA = Inr searchCritA
   \<and> sc_isPublished searchCritA
   \<and> matches exEnv searchCritA course1 \<and> c_isPublished course1
   \<and> \<not> c_isPublished course2 \<and> \<not> matches exEnv searchCritA course2
   \<and> searchCourses exEnv searchReqA exWorld
       = (Inr (200, CourseList [populateInstructor exWorld course1,
                                populateInstructor exWorld course3] 2), exWorld)
   \<and> getPublishedCourses exEnv searchReqA exWorld
       = (Inr (200, CoursePage [populateInstructor exWorld course1,
                                populateInstructor exWorld course3]
                      \<lparr> p_page = Fin 1, p_limit = Fin 10, p_total = 2, p_pages = Fin 1 \<rparr>), exWorld)
   \<and> c_isPublished (fst (populateInstructor exWorld course1))
   \<and> c_isPublished (fst (populateInstructor exWorld course3))"
proof -
  have a: "searchCriteria searchReqA = Inr searchCritA" by code_simp
  have b: "matches exEnv searchCritA course1" by code_simp
  have c: "\<not> c_isPublished course2" by code_simp
  have d: "searchCourses exEnv searchReqA exWorld
       = (Inr (200, CourseList [populateInstructor exWorld course1,
                                populateInstructor exWorld course3] 2), exWorld)"
    by code_simp
  have e: "getPublishedCourses exEnv searchReqA exWorld
       = (Inr (200, CoursePage [populateInstructor exWorld course1,
                                populateInstructor exWorld course3]
                      \<lparr> p_page = Fin 1, p_limit = Fin 10, p_total = 2, p_pages = Fin 1 \<rparr>), exWorld)"
    by code_simp
  show ?thesis
    using a b c d e search_only_published [of searchReqA exEnv exWorld] by auto
qed

subsection \<open>Adding a lecture\<close>

text \<open>
  Claim C7. When \<open>addLectureToCourse\<close> succeeds on a course with \<open>n\<close> lectures, the reply
  is the created lecture with status 201, its \<open>order\<close> is \<open>n + 1\<close>, and the stored course's
  lecture list is the old one with the new lecture's id appended.
\<close>

theorem addLectureToCourse_order_append:
  assumes "addLectureToCourse ev req w = (Inr (st, resp), w')"
  shows "\<exists>course lecture. findCourseById w (r_courseId req) = Some course
           \<and> st = 201 \<and> resp = LectureAdded lecture
           \<and> l_order lecture = length (c_lectures course) + 1
           \<and> findCourseById w' (r_courseId req)
                = Some (course\<lparr>c_lectures := c_lectures course @ [l_id lecture]\<rparr>)
           \<and> lectures w' = lectures w @ [lecture]"
proof -
  from assms obtain course where c: "findCourseById w (r_courseId req) = Some course"
    by (auto simp: addLectureToCourse_def split: option.splits)
  then have cid: "c_id course = r_courseId req" by (rule findCourseById_id)
  from assms c obtain path result where
    own: "c_instructor course = r_id req" and f: "r_file req = Some path"
    and u: "uploadAnswer ev path = Some result"
    by (auto simp: addLectureToCourse_def Let_def split: option.splits if_splits)
  define lecture where "lecture = \<lparr> l_id = newId ev,
       l_title = b_title (r_body req), l_description = b_description (r_body req),
       l_videoUrl = orElse (secure_url result) path, l_publicId = orElse (public_id result) path,
       l_duration = (case duration result of None \<Rightarrow> 0 | Some d \<Rightarrow> d),
       l_isPreview = b_isPreview (r_body req), l_order = length (c_lectures course) + 1 \<rparr>"
  from assms c own f u have r: "st = 201" "resp = LectureAdded lecture"
    and w': "w' = w\<lparr>media := media w @ [UploadMedia path], lectures := lectures w @ [lecture],
                    courses := updateFirst (\<lambda>c. c_id c = c_id course)
                       (\<lambda>c. c\<lparr>c_lectures := c_lectures course @ [l_id lecture]\<rparr>) (courses w)\<rparr>"
    by (simp_all add: addLectureToCourse_def Let_def lecture_def)
  have "findCourseById w' (r_courseId req)
          = map_option (\<lambda>c. c\<lparr>c_lectures := c_lectures course @ [l_id lecture]\<rparr>)
              (findCourseById w (r_courseId req))"
    unfolding findCourseById_def w' cid by (simp add: find_updateFirst)
  with c have "findCourseById w' (r_courseId req)
                 = Some (course\<lparr>c_lectures := c_lectures course @ [l_id lecture]\<rparr>)"
    by simp
  moreover have "l_order lecture = length (c_lectures course) + 1"
    by (simp add: lecture_def)
  moreover have "lectures w' = lectures w @ [lecture]"
    by (simp add: w')
  ultimately show ?thesis
    using c r by blast
qed

theorem addLectureToCourse_order_append_witness:
  "addLectureToCourse exEnv lectureReq exWorld
     = (Inr (201, LectureAdded lecture3),
        exWorld\<lparr>media := [UploadMedia ''sets.mp4''],
                 lectures := [lecture1, lecture2, lecture3],
                 courses := [course1\<lparr>c_lectures := [''l1'', ''l2'', ''n1'']\<rparr>, course2, course3]\<rparr>)
   \<and> findCourseById exWorld (r_courseId lectureReq) = Some course1
   \<and> length (c_lectures course1) = 2
   \<and> l_order lecture3 = 3"
proof -
  have a: "addLectureToCourse exEnv lectureReq exWorld
     = (Inr (201, LectureAdded lecture3),
        exWorld\<lparr>media := [UploadMedia ''sets.mp4''],
                 lectures := [lecture1, lecture2, lecture3],
                 courses := [course1\<lparr>c_lectures := [''l1'', ''l2'', ''n1'']\<rparr>, course2, course3]\<rparr>)"
    by code_simp
  have b: "findCourseById exWorld (r_courseId lectureReq) = Some course1" by code_simp
  have c: "length (c_lectures course1) = 2" by code_simp
  show ?thesis
    using a b c addLectureToCourse_order_append [OF a] by auto
qed

subsection \<open>Partial update of a course\<close>

text \<open>
  Claim C8. When \<open>updateCourseDetails\<close> succeeds, each of \<open>title\<close>, \<open>subtitle\<close>,
  \<open>description\<close>, \<open>category\<close>, \<open>level\<close> and \<open>price\<close> of the stored course takes the
  value supplied in the body and keeps its previous value when none is supplied; the
  thumbnail is unchanged when no file is attached; the other fields of the course, the other
  courses, the users and the lectures are unchanged.
\<close>

theorem updateCourseDetails_partial:
  assumes "updateCourseDetails ev req w = (Inr (st, resp), w')"
  shows "\<exists>old new. findCourseById w (r_courseId req) = Some old
           \<and> findCourseById w' (r_courseId req) = Some new
           \<and> resp = CourseUpdated (Some new)
           \<and> c_title new = (case b_title (r_body req) of None \<Rightarrow> c_title old | Some v \<Rightarrow> Some v)
           \<and> c_subtitle new
                = (case b_subtitle (r_body req) of None \<Rightarrow> c_subtitle old | Some v \<Rightarrow> Some v)
           \<and> c_description new
                = (case b_description (r_body req) of None \<Rightarrow> c_description old | Some v \<Rightarrow> Some v)
           \<and> c_category new
                = (case b_category (r_body req) of None \<Rightarrow> c_category old | Some v \<Rightarrow> Some v)
           \<and> c_level new = (case b_level (r_body req) of None \<Rightarrow> c_level old | Some v \<Rightarrow> Some v)
           \<and> c_price new = (case b_price (r_body req) of None \<Rightarrow> c_price old | Some v \<Rightarrow> Some v)
           \<and> (r_file req = None \<longrightarrow> c_thumbnail new = c_thumbnail old)
           \<and> c_id new = c_id old \<and> c_isPublished new = c_isPublished old
           \<and> c_instructor new = c_instructor old \<and> c_lectures new = c_lectures old
           \<and> c_enrolledStudents new = c_enrolledStudents old
           \<and> (\<forall>i. i \<noteq> r_courseId req \<longrightarrow> findCourseById w' i = findCourseById w i)
           \<and> users w' = users w \<and> lectures w' = lectures w"
proof -
  from assms obtain old where c: "findCourseById w (r_courseId req) = Some old"
    by (auto simp: updateCourseDetails_def split: option.splits)
  from assms c have own: "c_instructor old = r_id req"
    by (auto simp: updateCourseDetails_def split: if_splits)
  obtain thumbnail w1 where h: "handleFileUpload ev req old w = (thumbnail, w1)"
    by (cases "handleFileUpload ev req old w") auto
  then have w1: "courses w1 = courses w" "users w1 = users w" "lectures w1 = lectures w"
    and th: "r_file req = None \<longrightarrow> thumbnail = None"
    by (auto simp: handleFileUpload_def Let_def split: option.splits if_splits)
  define W where "W = w1\<lparr>courses := updateFirst (\<lambda>c. c_id c = r_courseId req)
                        (applyCourseUpdate (r_body req) thumbnail) (courses w1)\<rparr>"
  have "updateCourseDetails ev req w
          = (Inr (200, CourseUpdated (findCourseById W (r_courseId req))), W)"
    using c own h by (simp add: updateCourseDetails_def Let_def W_def)
  with assms have wW: "w' = W" and respW: "resp = CourseUpdated (findCourseById W (r_courseId req))"
    by auto
  from wW have
    w': "w' = w1\<lparr>courses := updateFirst (\<lambda>c. c_id c = r_courseId req)
                        (applyCourseUpdate (r_body req) thumbnail) (courses w1)\<rparr>"
    by (simp add: W_def)
  from respW wW have resp: "resp = CourseUpdated (findCourseById w' (r_courseId req))"
    by simp
  define new where "new = applyCourseUpdate (r_body req) thumbnail old"
  have n: "findCourseById w' (r_courseId req) = Some new"
    using c unfolding findCourseById_def w' new_def
    by (simp add: w1 find_updateFirst applyCourseUpdate_id)
  have other: "\<forall>i. i \<noteq> r_courseId req \<longrightarrow> findCourseById w' i = findCourseById w i"
    unfolding findCourseById_def w'
    by (auto simp: w1 applyCourseUpdate_id intro!: find_updateFirst_other)
  have thumb: "r_file req = None \<longrightarrow> c_thumbnail new = c_thumbnail old"
    using th by (auto simp: new_def applyCourseUpdate_def orElse_def)
  have fields: "c_title new = (case b_title (r_body req) of None \<Rightarrow> c_title old | Some v \<Rightarrow> Some v)"
    "c_subtitle new = (case b_subtitle (r_body req) of None \<Rightarrow> c_subtitle old | Some v \<Rightarrow> Some v)"
    "c_description new
       = (case b_description (r_body req) of None \<Rightarrow> c_description old | Some v \<Rightarrow> Some v)"
    "c_category new = (case b_category (r_body req) of None \<Rightarrow> c_category old | Some v \<Rightarrow> Some v)"
    "c_level new = (case b_level (r_body req) of None \<Rightarrow> c_level old | Some v \<Rightarrow> Some v)"
    "c_price new = (case b_price (r_body req) of None \<Rightarrow> c_price old | Some v \<Rightarrow> Some v)"
    "c_id new = c_id old" "c_isPublished new = c_isPublished old"
    "c_instructor new = c_instructor old" "c_lectures new = c_lectures old"
    "c_enrolledStudents new = c_enrolledStudents old"
    by (simp_all add: new_def applyCourseUpdate_def)
  have st: "users w' = users w" "lectures w' = lectures w"
    by (simp_all add: w' w1)
  show ?thesis
    using c n resp other thumb fields st by (intro exI [of _ old] exI [of _ new]) simp
qed


theorem updateCourseDetails_partial_witness:
  "updateCourseDetails exEnv titleReq exWorld
     = (Inr (200, CourseUpdated (Some (course1\<lparr>c_title := Some ''HOL, second edition''\<rparr>))),
        exWorld\<lparr>courses := [course1\<lparr>c_title := Some ''HOL, second edition''\<rparr>, course2, course3]\<rparr>)
   \<and> findCourseById exWorld (r_courseId titleReq) = Some course1
   \<and> r_file titleReq = None
   \<and> c_thumbnail (course1\<lparr>c_title := Some ''HOL, second edition''\<rparr>) = c_thumbnail course1"
proof -
  have a: "updateCourseDetails exEnv titleReq exWorld
     = (Inr (200, CourseUpdated (Some (course1\<lparr>c_title := Some ''HOL, second edition''\<rparr>))),
        exWorld\<lparr>courses := [course1\<lparr>c_title := Some ''HOL, second edition''\<rparr>, course2, course3]\<rparr>)"
    by code_simp
  have b: "findCourseById exWorld (r_courseId titleReq) = Some course1" by code_simp
  have c: "r_file titleReq = None" by code_simp
  show ?thesis
    using a b c updateCourseDetails_partial [OF a] by auto
qed

subsection \<open>Avatar replacement\<close>

text \<open>
  Claim C9. \<open>updateUserProfile\<close> with a new avatar file, for a user whose stored avatar is
  \<open>old-avatar.png\<close>: the handler uploads the file, but the deletion it issues is for
  \<open>req.user.avatar.public_id\<close>, which is \<open>undefined\<close>, and with no \<open>req.user\<close> the handler
  throws after the upload. The stored avatar \<open>old-avatar.png\<close> is never deleted from the
  media service, whatever the schema's cast of the written value is.
\<close>

theorem updateUserProfile_keeps_old_avatar:
  "u_avatar bob = ''old-avatar.png''
   \<and> findUserById exWorld (r_id avatarReq) = Some bob
   \<and> media (snd (updateUserProfile (exEnv\<lparr>castAvatar := k\<rparr>) avatarReq exWorld))
       = [UploadMedia ''new.png'', DeleteMedia None]
   \<and> updateUserProfile (exEnv\<lparr>castAvatar := k\<rparr>) (avatarReq\<lparr>r_user := None\<rparr>) exWorld
       = (Inl TypeError, exWorld\<lparr>media := [UploadMedia ''new.png'']\<rparr>)"
proof -
  have a: "u_avatar bob = ''old-avatar.png''" by code_simp
  have b: "findUserById exWorld (r_id avatarReq) = Some bob" by code_simp
  have b': "findUserById (exWorld\<lparr>media := m\<rparr>) ''u2'' = Some bob" for m
    using b by (simp add: findUserById_def avatarReq_def exReq_def)
  have e: "b_email (r_body avatarReq) = Some ''bob@example.com''" "r_file avatarReq = Some ''new.png''"
    "r_user avatarReq = Some bob" "r_id avatarReq = ''u2''" "media exWorld = []"
    by (simp_all add: avatarReq_def exReq_def exWorld_def)
  have c: "media (snd (updateUserProfile (exEnv\<lparr>castAvatar := k\<rparr>) avatarReq exWorld))
       = [UploadMedia ''new.png'', DeleteMedia None]"
    by (simp add: updateUserProfile_def Let_def e b' a saveProfile_media)
  have d: "updateUserProfile (exEnv\<lparr>castAvatar := k\<rparr>) (avatarReq\<lparr>r_user := None\<rparr>) exWorld
       = (Inl TypeError, exWorld\<lparr>media := [UploadMedia ''new.png'']\<rparr>)"
    by (simp add: updateUserProfile_def Let_def e b' a)
  show ?thesis using a b c d by simp
qed

end
